theory Spec2Isabelle
  imports Main
begin

section \<open>The systemd user unit monitor (systemd_unit_monitor.py)\<close>

text \<open>
  A shallow embedding of class \<open>SystemdUnitMonitor\<close>. The resolved configuration and the
  process identity are a record, the two mutable attributes \<open>units\<close> and
  \<open>filtered_units\<close> are a state record that every handler takes and returns, and
  whatever the program asks of its surroundings (the bus, the clock, the socket) is a
  record of answers, one per request a handler can make. Every handler also returns the
  list of effects it performed, in the order of the source's statements.
\<close>

subsection \<open>Data\<close>

text \<open>
  A Python exception, with the text that \<open>str(e)\<close> gives in the log messages.
\<close>

datatype exn = Exn string

fun str_exn :: "exn \<Rightarrow> string" where
  "str_exn (Exn msg) = msg"

text \<open>
  A Python float: a finite binary value \<open>m * 2 ^ e\<close>, an infinity (\<open>True\<close> for the
  negative one) or a NaN. A double has \<open>\<bar>m\<bar> < 2 ^ 53\<close>.
\<close>

datatype pyfloat = Finite int int | Infinity bool | NaN

text \<open>The dataclass \<open>UnitStats\<close>; \<open>name\<close> is a HOL constant, hence \<open>unit_name\<close>.\<close>

record UnitStats =
  unit_name :: string
  active_state :: string
  sub_state :: string
  load_state :: string
  unit_file_state :: string
  main_pid :: int
  restart_count :: int
  memory_current :: int
  cpu_usage_nsec :: int
  timestamp :: pyfloat

text \<open>
  What \<open>__init__\<close> reads once and never changes: the two pattern lists, the
  measurement name, the socket path and the identity of the invoking user.
\<close>

record config =
  include_patterns :: "string list"
  exclude_patterns :: "string list"
  measurement :: string
  telegraf_socket_path :: string
  username :: string
  uid :: int

subsection \<open>Rendering integers and the timestamp\<close>

text \<open>\<open>str(n)\<close> for a Python int, as the f-strings of \<open>send_to_telegraf\<close> apply it.\<close>

definition digit_char :: "nat \<Rightarrow> char" where
  "digit_char d = ''0123456789'' ! d"

function str_nat :: "nat \<Rightarrow> string" where
  "str_nat n = (if n < 10 then [digit_char n] else str_nat (n div 10) @ [digit_char (n mod 10)])"
  by pat_completeness auto
termination
  by (relation "measure id") auto

declare str_nat.simps [simp del]

definition str_int :: "int \<Rightarrow> string" where
  "str_int i = (if i < 0 then CHR ''-'' # str_nat (nat (- i)) else str_nat (nat i))"

text \<open>
  \<open>stats.timestamp * 1_000_000_000\<close> is a product of doubles (the int becomes the double
  \<open>10 ^ 9\<close>, which is exact): the exact product is rounded to 53 significant bits, ties
  to even, and is an infinity from \<open>2 ^ 1024\<close> on. Products below the normal range are
  not rounded to the subnormal grid; they are far below 1 and \<open>int\<close> sends them to 0
  either way. A zero carries no sign.
\<close>

function bit_length :: "nat \<Rightarrow> nat" where
  "bit_length n = (if n = 0 then 0 else Suc (bit_length (n div 2)))"
  by pat_completeness auto
termination
  by (relation "measure id") auto

declare bit_length.simps [simp del]

definition round_half_even :: "nat \<Rightarrow> nat \<Rightarrow> nat" where
  "round_half_even n k =
     (let q = n div 2 ^ k; r = n mod 2 ^ k
      in if 2 ^ k < 2 * r \<or> (2 * r = 2 ^ k \<and> odd q) then q + 1 else q)"

definition round_double :: "int \<Rightarrow> int \<Rightarrow> pyfloat" where
  "round_double m e =
     (let n = nat \<bar>m\<bar>; k = bit_length n - 53; q = round_half_even n k
      in if 1024 < int (bit_length q) + (e + int k) then Infinity (m < 0)
         else Finite (sgn m * int q) (e + int k))"

fun float_mul :: "pyfloat \<Rightarrow> pyfloat \<Rightarrow> pyfloat" where
  "float_mul (Finite m1 e1) (Finite m2 e2) = round_double (m1 * m2) (e1 + e2)"
| "float_mul (Finite m e) (Infinity s) = (if m = 0 then NaN else Infinity (s \<noteq> (m < 0)))"
| "float_mul (Infinity s) (Finite m e) = (if m = 0 then NaN else Infinity (s \<noteq> (m < 0)))"
| "float_mul (Infinity s1) (Infinity s2) = Infinity (s1 \<noteq> s2)"
| "float_mul NaN y = NaN"
| "float_mul x NaN = NaN"

text \<open>\<open>int(x)\<close> for a float: truncation towards zero; OverflowError or ValueError otherwise.\<close>

fun int_of_float :: "pyfloat \<Rightarrow> exn + int" where
  "int_of_float (Finite m e) =
     Inr (if 0 \<le> e then m * 2 ^ nat e else sgn m * (\<bar>m\<bar> div 2 ^ nat (- e)))"
| "int_of_float (Infinity s) = Inl (Exn ''cannot convert float infinity to integer'')"
| "int_of_float NaN = Inl (Exn ''cannot convert float NaN to integer'')"

definition timestamp_ns :: "pyfloat \<Rightarrow> exn + int" where
  "timestamp_ns t = int_of_float (float_mul t (Finite 1000000000 0))"

subsection \<open>The surroundings and the effects\<close>

text \<open>
  The answers of the surroundings during one handler run. A bus call raises (\<open>Inl\<close>) or
  returns. \<open>bus_Get_str w path iface prop\<close> stands for
  \<open>str(unit_props.Get(iface, prop))\<close> on the proxy of \<open>path\<close> and \<open>bus_Get_int\<close> for
  \<open>int(unit_props.Get(iface, prop))\<close>: the call or the conversion may raise.
  \<open>bus_get_object\<close> is \<open>session_bus.get_object\<close> followed by \<open>dbus.Interface\<close>;
  \<open>bus_ListUnits\<close> gives the names \<open>unit_info[0]\<close>. A socket operation raises
  (\<open>Some\<close>) or succeeds (\<open>None\<close>). No request is made twice within one collection and
  emission, so a function of the request describes every behaviour.
\<close>

record world =
  bus_ListUnits :: "exn + string list"
  bus_GetUnit :: "string \<Rightarrow> exn + string"
  bus_get_object :: "string \<Rightarrow> exn option"
  bus_Get_str :: "string \<Rightarrow> string \<Rightarrow> string \<Rightarrow> exn + string"
  bus_Get_int :: "string \<Rightarrow> string \<Rightarrow> string \<Rightarrow> exn + int"
  time_time :: pyfloat
  socket_socket :: "exn option"
  sock_connect :: "string \<Rightarrow> exn option"
  sock_send :: "string \<Rightarrow> exn option"
  sock_close :: "exn option"

datatype level = DEBUG | INFO | WARNING | ERROR

text \<open>
  One entry per statement with an effect, in program order: a call of the logger, of the
  bus (\<open>Bus_Get iface prop\<close> on the unit's proxy) or of the socket, an update of
  \<open>self.units\<close> or \<open>self.filtered_units\<close>, and the two calls
  \<open>self.get_unit_stats(unit_name)\<close> and \<open>self.send_to_telegraf(stats)\<close> made by
  \<open>collect_and_send_unit_stats\<close>. A call is recorded whether it raises or returns.
\<close>

datatype event =
    Log level string
  | Bus_ListUnits
  | Bus_GetUnit string
  | Bus_get_object string
  | Bus_Get string string
  | Sock_socket
  | Sock_connect string
  | Sock_send string
  | Sock_close
  | Units_set string UnitStats
  | Units_pop string
  | Filtered_add string
  | Filtered_discard string
  | Call_get_unit_stats string
  | Call_send_to_telegraf UnitStats

definition iface_Unit :: string where
  "iface_Unit = ''org.freedesktop.systemd1.Unit''"

definition iface_Service :: string where
  "iface_Service = ''org.freedesktop.systemd1.Service''"

subsection \<open>Stats collector\<close>

text \<open>\<open>unit_name.endswith(suffix)\<close>.\<close>

definition endswith :: "string \<Rightarrow> string \<Rightarrow> bool" where
  "endswith s suf = (length suf \<le> length s \<and> drop (length s - length suf) s = suf)"

text \<open>
  Lines 202 to 209 of \<open>get_unit_stats\<close>: the unit's path, its proxy and the three
  mandatory properties. The first call that raises ends the block with its exception.
\<close>

definition get_base :: "world \<Rightarrow> string \<Rightarrow> event list \<times> (exn + string \<times> string \<times> string \<times> string)" where
  "get_base w name =
     (case bus_GetUnit w name of
        Inl e \<Rightarrow> ([Bus_GetUnit name], Inl e)
      | Inr unit_path \<Rightarrow>
     (case bus_get_object w unit_path of
        Some e \<Rightarrow> ([Bus_GetUnit name, Bus_get_object unit_path], Inl e)
      | None \<Rightarrow>
     (case bus_Get_str w unit_path iface_Unit ''ActiveState'' of
        Inl e \<Rightarrow> ([Bus_GetUnit name, Bus_get_object unit_path,
                    Bus_Get iface_Unit ''ActiveState''], Inl e)
      | Inr a \<Rightarrow>
     (case bus_Get_str w unit_path iface_Unit ''SubState'' of
        Inl e \<Rightarrow> ([Bus_GetUnit name, Bus_get_object unit_path,
                    Bus_Get iface_Unit ''ActiveState'', Bus_Get iface_Unit ''SubState''], Inl e)
      | Inr b \<Rightarrow>
     (case bus_Get_str w unit_path iface_Unit ''LoadState'' of
        Inl e \<Rightarrow> ([Bus_GetUnit name, Bus_get_object unit_path,
                    Bus_Get iface_Unit ''ActiveState'', Bus_Get iface_Unit ''SubState'',
                    Bus_Get iface_Unit ''LoadState''], Inl e)
      | Inr c \<Rightarrow> ([Bus_GetUnit name, Bus_get_object unit_path,
                    Bus_Get iface_Unit ''ActiveState'', Bus_Get iface_Unit ''SubState'',
                    Bus_Get iface_Unit ''LoadState''], Inr (unit_path, a, b, c)))))))"

text \<open>
  The local variables of lines 212 to 216, which the inner \<open>try\<close> block assigns one by one.
\<close>

record extended =
  x_main_pid :: int
  x_restart_count :: int
  x_memory_current :: int
  x_cpu_usage_nsec :: int
  x_unit_file_state :: string

definition extended_defaults :: extended where
  "extended_defaults = \<lparr>x_main_pid = 0, x_restart_count = 0, x_memory_current = 0,
     x_cpu_usage_nsec = 0, x_unit_file_state = ''unknown''\<rparr>"

text \<open>
  Lines 219 to 223, the \<open>if unit_name.endswith(".service")\<close> statement: the assignments
  done, the calls made and the exception that leaves the statement, if any.
\<close>

definition get_service :: "world \<Rightarrow> string \<Rightarrow> string \<Rightarrow> extended \<Rightarrow> extended \<times> event list \<times> exn option" where
  "get_service w unit_path name x =
     (if endswith name ''.service'' then
        (case bus_Get_int w unit_path iface_Service ''MainPID'' of
           Inl e \<Rightarrow> (x, [Bus_Get iface_Service ''MainPID''], Some e)
         | Inr pid \<Rightarrow>
        (case bus_Get_int w unit_path iface_Service ''NRestarts'' of
           Inl e \<Rightarrow> (x\<lparr>x_main_pid := pid\<rparr>,
                      [Bus_Get iface_Service ''MainPID'', Bus_Get iface_Service ''NRestarts''],
                      Some e)
         | Inr n \<Rightarrow> (x\<lparr>x_main_pid := pid, x_restart_count := n\<rparr>,
                      [Bus_Get iface_Service ''MainPID'', Bus_Get iface_Service ''NRestarts''],
                      None)))
      else (x, [], None))"

text \<open>
  Lines 226 to 239, the three \<open>with contextlib.suppress(Exception)\<close> blocks: nothing
  leaves them, a failed assignment is not done.
\<close>

definition get_resources :: "world \<Rightarrow> string \<Rightarrow> extended \<Rightarrow> extended \<times> event list" where
  "get_resources w unit_path x =
     (let x1 = (case bus_Get_int w unit_path iface_Unit ''MemoryCurrent'' of
                  Inl e \<Rightarrow> x | Inr v \<Rightarrow> x\<lparr>x_memory_current := v\<rparr>);
          x2 = (case bus_Get_int w unit_path iface_Unit ''CPUUsageNSec'' of
                  Inl e \<Rightarrow> x1 | Inr v \<Rightarrow> x1\<lparr>x_cpu_usage_nsec := v\<rparr>);
          x3 = (case bus_Get_str w unit_path iface_Unit ''UnitFileState'' of
                  Inl e \<Rightarrow> x2 | Inr v \<Rightarrow> x2\<lparr>x_unit_file_state := v\<rparr>)
      in (x3, [Bus_Get iface_Unit ''MemoryCurrent'', Bus_Get iface_Unit ''CPUUsageNSec'',
               Bus_Get iface_Unit ''UnitFileState'']))"

text \<open>
  Lines 218 to 242, the inner \<open>try\<close> statement: an exception of the service block skips
  the rest of the body and is logged by the handler.
\<close>

definition get_extended :: "world \<Rightarrow> string \<Rightarrow> string \<Rightarrow> extended \<times> event list" where
  "get_extended w unit_path name =
     (case get_service w unit_path name extended_defaults of
        (x, t, Some e) \<Rightarrow>
          (x, t @ [Log DEBUG (''Could not get extended properties for '' @ name @ '': ''
                               @ str_exn e)])
      | (x, t, None) \<Rightarrow>
          (let (x', t') = get_resources w unit_path x in (x', t @ t')))"

definition get_unit_stats :: "world \<Rightarrow> string \<Rightarrow> UnitStats option \<times> event list" where
  "get_unit_stats w name =
     (case get_base w name of
        (t, Inl e) \<Rightarrow>
          (None, t @ [Log DEBUG (''Failed to get stats for '' @ name @ '': '' @ str_exn e)])
      | (t, Inr (unit_path, a, b, c)) \<Rightarrow>
          (let (x, t') = get_extended w unit_path name
           in (Some \<lparr>unit_name = name, active_state = a, sub_state = b, load_state = c,
                      unit_file_state = x_unit_file_state x, main_pid = x_main_pid x,
                      restart_count = x_restart_count x,
                      memory_current = x_memory_current x,
                      cpu_usage_nsec = x_cpu_usage_nsec x, timestamp = time_time w\<rparr>,
               t @ t')))"

subsection \<open>Filter engine\<close>

text \<open>
  \<open>_should_monitor_unit\<close>. The matcher \<open>fnmatch.fnmatch\<close> belongs to the Python
  library; it is the parameter \<open>fnm\<close>, called as \<open>fnm unit_name pattern\<close>.
  A non-empty list is true in Python, \<open>any\<close> over a list is \<open>list_ex\<close>.
\<close>

definition should_monitor_unit ::
    "(string \<Rightarrow> string \<Rightarrow> bool) \<Rightarrow> config \<Rightarrow> string \<Rightarrow> bool" where
  "should_monitor_unit fnm cfg name =
     (if include_patterns cfg \<noteq> [] \<and> \<not> list_ex (fnm name) (include_patterns cfg)
      then False
      else \<not> (exclude_patterns cfg \<noteq> [] \<and> list_ex (fnm name) (exclude_patterns cfg)))"

text \<open>
  Modelled from the spec: the glob semantics of section 4.1, case-sensitive, \<open>*\<close> for any
  run of characters (the empty one too) and \<open>?\<close> for exactly one character. It stands
  for \<open>fnmatch.fnmatch\<close> where a concrete matcher is needed; the character classes
  \<open>[...]\<close> of the library are not covered.
\<close>

fun glob :: "string \<Rightarrow> string \<Rightarrow> bool" where
  "glob [] [] = True"
| "glob [] (c # cs) = False"
| "glob (p # ps) [] = (p = CHR ''*'' \<and> glob ps [])"
| "glob (p # ps) (c # cs) =
     (if p = CHR ''*'' then glob ps (c # cs) \<or> glob (p # ps) cs
      else (p = CHR ''?'' \<or> p = c) \<and> glob ps cs)"

definition fnmatch :: "string \<Rightarrow> string \<Rightarrow> bool" where
  "fnmatch name pat = glob pat name"

subsection \<open>Metric emitter\<close>

text \<open>\<open>sep.join(xs)\<close>.\<close>

fun join :: "string \<Rightarrow> string list \<Rightarrow> string" where
  "join sep [] = []"
| "join sep [x] = x"
| "join sep (x # y # ys) = x @ sep @ join sep (y # ys)"

text \<open>
  Lines 264 to 289 of \<open>send_to_telegraf\<close>: the line, or the exception of the timestamp
  conversion. The strings are put between double quotes as they are.
\<close>

definition format_line :: "config \<Rightarrow> UnitStats \<Rightarrow> exn + string" where
  \<open>format_line cfg stats =
     (let tags = [''unit="'' @ unit_name stats @ ''"'',
                  ''active_state="'' @ active_state stats @ ''"'',
                  ''sub_state="'' @ sub_state stats @ ''"'',
                  ''load_state="'' @ load_state stats @ ''"'',
                  ''unit_file_state="'' @ unit_file_state stats @ ''"'',
                  ''username="'' @ username cfg @ ''"'',
                  ''uid="'' @ str_int (uid cfg) @ ''"''];
          tags_str = join '','' tags;
          fields = [''main_pid='' @ str_int (main_pid stats) @ ''i'',
                    ''restart_count='' @ str_int (restart_count stats) @ ''i'',
                    ''memory_current='' @ str_int (memory_current stats) @ ''i'',
                    ''cpu_usage_nsec='' @ str_int (cpu_usage_nsec stats) @ ''i''];
          fields_str = join '','' fields
      in case timestamp_ns (timestamp stats) of
           Inl e \<Rightarrow> Inl e
         | Inr ns \<Rightarrow>
             Inr (measurement cfg @ '','' @ tags_str @ '' '' @ fields_str @ '' '' @ str_int ns
                  @ [CHR 0x0A]))\<close>

text \<open>
  Lines 292 to 300: the socket is created, then \<open>try\<close> connects and sends, \<open>except\<close>
  logs a warning, \<open>finally\<close> closes. What leaves the statement is an exception of
  \<open>socket.socket\<close> or of \<open>close\<close>.
\<close>

definition send_line :: "config \<Rightarrow> world \<Rightarrow> UnitStats \<Rightarrow> string \<Rightarrow> event list \<times> exn option" where
  "send_line cfg w stats line =
     (case socket_socket w of
        Some e \<Rightarrow> ([Sock_socket], Some e)
      | None \<Rightarrow>
          (let body =
             (case sock_connect w (telegraf_socket_path cfg) of
                Some e \<Rightarrow>
                  [Sock_connect (telegraf_socket_path cfg),
                   Log WARNING (''Failed to send to Telegraf socket: '' @ str_exn e)]
              | None \<Rightarrow>
                  (case sock_send w line of
                     Some e \<Rightarrow>
                       [Sock_connect (telegraf_socket_path cfg), Sock_send line,
                        Log WARNING (''Failed to send to Telegraf socket: '' @ str_exn e)]
                   | None \<Rightarrow>
                       [Sock_connect (telegraf_socket_path cfg), Sock_send line,
                        Log DEBUG (''Sent stats for '' @ unit_name stats)]))
           in (Sock_socket # body @ [Sock_close], sock_close w)))"

text \<open>
  \<open>send_to_telegraf\<close>: the outer \<open>try\<close> with its handler. The second component is the
  exception that reaches the caller.
\<close>

definition send_to_telegraf :: "config \<Rightarrow> world \<Rightarrow> UnitStats \<Rightarrow> event list \<times> exn option" where
  "send_to_telegraf cfg w stats =
     (case (case format_line cfg stats of
              Inl e \<Rightarrow> ([], Some e)
            | Inr line \<Rightarrow> send_line cfg w stats line) of
        (t, Some e) \<Rightarrow>
          (t @ [Log ERROR (''Error formatting/sending stats for '' @ unit_name stats @ '': ''
                           @ str_exn e)], None)
      | (t, None) \<Rightarrow> (t, None))"

subsection \<open>Reconciler\<close>

text \<open>The two attributes that the handlers change.\<close>

record monitor =
  units :: "string \<rightharpoonup> UnitStats"
  filtered_units :: "string set"

text \<open>
  \<open>collect_and_send_unit_stats\<close>. The old entry is read, the new one stored, then the
  change of state is logged and the snapshot sent.
\<close>

definition collect_and_send_unit_stats :: "config \<Rightarrow> world \<Rightarrow> string \<Rightarrow> monitor \<Rightarrow> monitor \<times> event list" where
  "collect_and_send_unit_stats cfg w name s =
     (case get_unit_stats w name of
        (None, t) \<Rightarrow> (s, Call_get_unit_stats name # t)
      | (Some stats, t) \<Rightarrow>
          (let old_stats = units s name;
               s' = s\<lparr>units := (units s)(name \<mapsto> stats)\<rparr>;
               changed =
                 (case old_stats of
                    None \<Rightarrow> []
                  | Some old \<Rightarrow>
                      if active_state old \<noteq> active_state stats
                      then [Log INFO (''Unit '' @ name @ '' state changed: ''
                                      @ active_state old @ '' -> '' @ active_state stats)]
                      else [])
           in (s', Call_get_unit_stats name # t @ [Units_set name stats] @ changed
                   @ [Call_send_to_telegraf stats] @ fst (send_to_telegraf cfg w stats))))"

text \<open>
  The loop \<open>for unit_name in ...: self.collect_and_send_unit_stats(unit_name)\<close> of
  \<open>poll_units\<close> and \<open>run\<close>. \<open>W unit_name\<close> is what the surroundings answer while that
  unit is handled.
\<close>

fun collect_all :: "config \<Rightarrow> (string \<Rightarrow> world) \<Rightarrow> string list \<Rightarrow> monitor \<Rightarrow> monitor \<times> event list" where
  "collect_all cfg W [] s = (s, [])"
| "collect_all cfg W (name # names) s =
     (let (s1, t1) = collect_and_send_unit_stats cfg (W name) name s;
          (s2, t2) = collect_all cfg W names s1
      in (s2, t1 @ t2))"

text \<open>
  \<open>poll_units\<close>. Python fixes no order for \<open>list(self.filtered_units)\<close>: \<open>order\<close> is
  the one the runtime takes.
\<close>

definition poll_units :: "config \<Rightarrow> (string \<Rightarrow> world) \<Rightarrow> (string set \<Rightarrow> string list) \<Rightarrow> monitor \<Rightarrow> monitor \<times> event list" where
  "poll_units cfg W order s = collect_all cfg W (order (filtered_units s)) s"

definition get_all_units :: "(string \<Rightarrow> string \<Rightarrow> bool) \<Rightarrow> config \<Rightarrow> world \<Rightarrow> monitor \<Rightarrow> string list \<times> monitor \<times> event list" where
  "get_all_units fnm cfg w s =
     (case bus_ListUnits w of
        Inl e \<Rightarrow> ([], s, [Bus_ListUnits, Log ERROR (''Failed to get unit list: '' @ str_exn e)])
      | Inr listed \<Rightarrow>
          (let unit_names = filter (should_monitor_unit fnm cfg) listed
           in (unit_names,
               s\<lparr>filtered_units := filtered_units s \<union> set unit_names\<rparr>,
               Bus_ListUnits # map Filtered_add unit_names
                 @ [Log INFO (''Found '' @ str_int (int (length unit_names))
                              @ '' units to monitor'')])))"

text \<open>Lines 359 to 364 of \<open>run\<close>: discovery and the first collection.\<close>

definition initial_pass :: "(string \<Rightarrow> string \<Rightarrow> bool) \<Rightarrow> config \<Rightarrow> world \<Rightarrow> (string \<Rightarrow> world) \<Rightarrow> monitor \<Rightarrow> monitor \<times> event list" where
  "initial_pass fnm cfg w W s =
     (let (initial_units, s1, t1) = get_all_units fnm cfg w s;
          (s2, t2) = collect_all cfg W initial_units s1
      in (s2, t1 @ [Log INFO ''Collecting initial unit statistics''] @ t2))"

definition on_unit_new :: "(string \<Rightarrow> string \<Rightarrow> bool) \<Rightarrow> config \<Rightarrow> world \<Rightarrow> string \<Rightarrow> monitor \<Rightarrow> monitor \<times> event list" where
  "on_unit_new fnm cfg w name s =
     (if should_monitor_unit fnm cfg name then
        (let s1 = s\<lparr>filtered_units := insert name (filtered_units s)\<rparr>;
             (s2, t) = collect_and_send_unit_stats cfg w name s1
         in (s2, Log INFO (''New unit detected: '' @ name) # Filtered_add name # t))
      else (s, []))"

definition on_unit_removed :: "string \<Rightarrow> monitor \<Rightarrow> monitor \<times> event list" where
  "on_unit_removed name s =
     (if name \<in> filtered_units s then
        (s\<lparr>filtered_units := filtered_units s - {name}, units := (units s)(name := None)\<rparr>,
         [Log INFO (''Unit removed: '' @ name), Filtered_discard name, Units_pop name])
      else (s, []))"

subsection \<open>Vocabulary of the statements\<close>

text \<open>
  Resolving the unit or reading one of the three mandatory properties fails: \<open>GetUnit\<close>
  raises, or the proxy cannot be made, or \<open>ActiveState\<close>, \<open>SubState\<close> or
  \<open>LoadState\<close> cannot be read.
\<close>

definition base_failed :: "world \<Rightarrow> string \<Rightarrow> bool" where
  "base_failed w name =
     (case bus_GetUnit w name of
        Inl e \<Rightarrow> True
      | Inr unit_path \<Rightarrow>
          bus_get_object w unit_path \<noteq> None
          \<or> isl (bus_Get_str w unit_path iface_Unit ''ActiveState'')
          \<or> isl (bus_Get_str w unit_path iface_Unit ''SubState'')
          \<or> isl (bus_Get_str w unit_path iface_Unit ''LoadState''))"

text \<open>
  On a service, \<open>MainPID\<close> or \<open>NRestarts\<close> cannot be read (\<open>NRestarts\<close> is only asked
  for once \<open>MainPID\<close> has been read).
\<close>

definition service_failed :: "world \<Rightarrow> string \<Rightarrow> string \<Rightarrow> bool" where
  "service_failed w unit_path name =
     (endswith name ''.service''
      \<and> (isl (bus_Get_int w unit_path iface_Service ''MainPID'')
         \<or> isl (bus_Get_int w unit_path iface_Service ''NRestarts'')))"

text \<open>The snapshot that \<open>get_unit_stats\<close> builds from the values it has read.\<close>

definition snapshot :: "world \<Rightarrow> string \<Rightarrow> string \<Rightarrow> string \<Rightarrow> string \<Rightarrow> extended \<Rightarrow> UnitStats" where
  "snapshot w name a b c x =
     \<lparr>unit_name = name, active_state = a, sub_state = b, load_state = c,
      unit_file_state = x_unit_file_state x, main_pid = x_main_pid x,
      restart_count = x_restart_count x, memory_current = x_memory_current x,
      cpu_usage_nsec = x_cpu_usage_nsec x, timestamp = time_time w\<rparr>"

text \<open>
  What a run wrote to the socket, the warnings it logged, and how often an effect occurs
  in it.
\<close>

fun sent :: "event list \<Rightarrow> string list" where
  "sent [] = []"
| "sent (Sock_send d # es) = d # sent es"
| "sent (e # es) = sent es"

fun warnings :: "event list \<Rightarrow> string list" where
  "warnings [] = []"
| "warnings (Log WARNING m # es) = m # warnings es"
| "warnings (e # es) = warnings es"

definition occurrences :: "event \<Rightarrow> event list \<Rightarrow> nat" where
  "occurrences e es = length (filter (\<lambda>x. x = e) es)"

fun infos :: "event list \<Rightarrow> string list" where
  "infos [] = []"
| "infos (Log INFO m # es) = m # infos es"
| "infos (e # es) = infos es"

text \<open>Every key of the state store is in the scope set.\<close>

definition store_in_scope :: "monitor \<Rightarrow> bool" where
  "store_in_scope s = (dom (units s) \<subseteq> filtered_units s)"

subsection \<open>Concrete inputs\<close>

definition cfg0 :: config where
  "cfg0 = \<lparr>include_patterns = [], exclude_patterns = [], measurement = ''systemd_units'',
      telegraf_socket_path = ''/run/telegraf/telegraf.sock'', username = ''testuser'',
      uid = 1000\<rparr>"

text \<open>The filter of \<open>test_filter_pattern_precedence\<close>: include everything, exclude mounts.\<close>

definition cfg_no_mounts :: config where
  "cfg_no_mounts = cfg0\<lparr>include_patterns := [''*''], exclude_patterns := [''*.mount'']\<rparr>"

definition unit_path_of :: "string \<Rightarrow> string" where
  "unit_path_of name = ''/org/freedesktop/systemd1/unit/'' @ name"

text \<open>
  A bus that answers as the mock of \<open>test_get_unit_stats_service\<close> does, for every unit
  and so for mounts too; the clock reads 1639123456.789, the double
  \<open>3437491035651965 * 2 ^ -21\<close>; the socket works.
\<close>

definition world_ok :: world where
  "world_ok =
     \<lparr>bus_ListUnits = Inr [''nginx.service'', ''user.mount'', ''backup.timer''],
      bus_GetUnit = (\<lambda>name. Inr (unit_path_of name)),
      bus_get_object = (\<lambda>path. None),
      bus_Get_str = (\<lambda>path iface prop.
         if prop = ''ActiveState'' then Inr ''active''
         else if prop = ''SubState'' then Inr ''running''
         else if prop = ''LoadState'' then Inr ''loaded''
         else if prop = ''UnitFileState'' then Inr ''enabled''
         else Inl (Exn ''no such property'')),
      bus_Get_int = (\<lambda>path iface prop.
         if prop = ''MainPID'' then Inr 1234
         else if prop = ''NRestarts'' then Inr 2
         else if prop = ''MemoryCurrent'' then Inr 52428800
         else if prop = ''CPUUsageNSec'' then Inr 1234567890
         else Inl (Exn ''no such property'')),
      time_time = Finite 3437491035651965 (- 21),
      socket_socket = None,
      sock_connect = (\<lambda>path. None),
      sock_send = (\<lambda>data. None),
      sock_close = None\<rparr>"

text \<open>The same bus when \<open>GetUnit\<close> raises, as in \<open>test_get_unit_stats_failure\<close>.\<close>

definition world_no_unit :: world where
  "world_no_unit = world_ok\<lparr>bus_GetUnit := (\<lambda>name. Inl (Exn ''Unit not found''))\<rparr>"

text \<open>The same bus when one property cannot be read.\<close>

definition world_without :: "string \<Rightarrow> world" where
  "world_without missing =
     world_ok\<lparr>bus_Get_str := (\<lambda>path iface prop.
                  if prop = missing then Inl (Exn ''no such property'')
                  else bus_Get_str world_ok path iface prop),
              bus_Get_int := (\<lambda>path iface prop.
                  if prop = missing then Inl (Exn ''no such property'')
                  else bus_Get_int world_ok path iface prop)\<rparr>"

text \<open>What \<open>get_unit_stats\<close> returns for \<open>user.mount\<close> on the bus \<open>world_ok\<close>.\<close>

definition mount_stats :: UnitStats where
  "mount_stats =
     \<lparr>unit_name = ''user.mount'', active_state = ''active'', sub_state = ''running'',
      load_state = ''loaded'', unit_file_state = ''enabled'', main_pid = 0, restart_count = 0,
      memory_current = 52428800, cpu_usage_nsec = 1234567890,
      timestamp = Finite 3437491035651965 (- 21)\<rparr>"

text \<open>
  The snapshot of the end-to-end scenario and of \<open>sample_stats\<close> in the tests, with its
  timestamp left open.
\<close>

definition sample_stats :: "pyfloat \<Rightarrow> UnitStats" where
  "sample_stats T =
     \<lparr>unit_name = ''nginx.service'', active_state = ''active'', sub_state = ''running'',
      load_state = ''loaded'', unit_file_state = ''enabled'', main_pid = 1234, restart_count = 0,
      memory_current = 52428800, cpu_usage_nsec = 1234567890, timestamp = T\<rparr>"

text \<open>A collector that refuses the connection, and one whose pipe breaks.\<close>

definition world_refused :: world where
  "world_refused = world_ok\<lparr>sock_connect := (\<lambda>path. Some (Exn ''Connection refused''))\<rparr>"

definition world_broken_pipe :: world where
  "world_broken_pipe = world_ok\<lparr>sock_send := (\<lambda>data. Some (Exn ''Broken pipe''))\<rparr>"

text \<open>The line of the scenario at 1639123456.789 seconds.\<close>

definition sample_line :: string where
  \<open>sample_line =
     ''systemd_units,unit="nginx.service",active_state="active",sub_state="running",load_state="loaded",unit_file_state="enabled",username="testuser",uid="1000" main_pid=1234i,restart_count=0i,memory_current=52428800i,cpu_usage_nsec=1234567890i 1639123456788999936''
     @ [CHR 0x0A]\<close>

text \<open>What \<open>get_unit_stats\<close> returns for \<open>nginx.service\<close> on the bus \<open>world_ok\<close>.\<close>

definition nginx_stats :: UnitStats where
  "nginx_stats =
     \<lparr>unit_name = ''nginx.service'', active_state = ''active'', sub_state = ''running'',
      load_state = ''loaded'', unit_file_state = ''enabled'', main_pid = 1234, restart_count = 2,
      memory_current = 52428800, cpu_usage_nsec = 1234567890,
      timestamp = Finite 3437491035651965 (- 21)\<rparr>"

text \<open>
  The monitor before anything is tracked; the monitor that tracks \<open>nginx.service\<close> and
  last saw it inactive, as the old snapshot of
  \<open>test_collect_and_send_unit_stats_state_change\<close>.
\<close>

definition monitor_empty :: monitor where
  "monitor_empty = \<lparr>units = Map.empty, filtered_units = {}\<rparr>"

definition nginx_inactive :: UnitStats where
  "nginx_inactive =
     \<lparr>unit_name = ''nginx.service'', active_state = ''inactive'', sub_state = ''dead'',
      load_state = ''loaded'', unit_file_state = ''enabled'', main_pid = 0, restart_count = 0,
      memory_current = 0, cpu_usage_nsec = 0, timestamp = Finite 1639123456 0\<rparr>"

definition monitor_nginx :: monitor where
  "monitor_nginx =
     \<lparr>units = [''nginx.service'' \<mapsto> nginx_inactive], filtered_units = {''nginx.service''}\<rparr>"

text \<open>The monitor that tracks a service and a mount.\<close>

definition monitor_two :: monitor where
  "monitor_two =
     \<lparr>units = [''nginx.service'' \<mapsto> nginx_inactive],
      filtered_units = {''nginx.service'', ''user.mount''}\<rparr>"

section \<open>Filter engine: theorems\<close>

text \<open>
  C3. Whatever the matcher and the include list: when the exclude list is non-empty and the
  unit name matches one of its patterns, the unit is not monitored.
\<close>

theorem C3_exclude_wins:
  assumes "exclude_patterns cfg \<noteq> []"
    and "list_ex (fnm name) (exclude_patterns cfg)"
  shows "should_monitor_unit fnm cfg name = False"
  using assms by (simp add: should_monitor_unit_def)

theorem C3_exclude_wins_witness:
  "exclude_patterns cfg_no_mounts \<noteq> []
   \<and> list_ex (fnmatch ''user.mount'') (exclude_patterns cfg_no_mounts)
   \<and> list_ex (fnmatch ''user.mount'') (include_patterns cfg_no_mounts)
   \<and> should_monitor_unit fnmatch cfg_no_mounts ''user.mount'' = False"
proof -
  have ne: "exclude_patterns cfg_no_mounts \<noteq> []"
    by (simp add: cfg_no_mounts_def)
  have ex: "list_ex (fnmatch ''user.mount'') (exclude_patterns cfg_no_mounts)"
    by (simp add: cfg_no_mounts_def fnmatch_def)
  have inc: "list_ex (fnmatch ''user.mount'') (include_patterns cfg_no_mounts)"
    by (simp add: cfg_no_mounts_def fnmatch_def)
  have "should_monitor_unit fnmatch cfg_no_mounts ''user.mount'' = False"
    using ne ex by (rule C3_exclude_wins)
  with ne ex inc show ?thesis by blast
qed

text \<open>
  C4, as the code has it. With both pattern lists empty every unit name is monitored, the
  empty name too. The empty name is rejected exactly when the include list is non-empty
  and none of its patterns matches the empty name, or when an exclude pattern matches it.
\<close>

theorem C4_empty_lists_and_empty_name:
  "(include_patterns cfg = [] \<and> exclude_patterns cfg = [] \<longrightarrow>
      should_monitor_unit fnm cfg name = True)
   \<and> (should_monitor_unit fnm cfg [] = False \<longleftrightarrow>
        (include_patterns cfg \<noteq> [] \<and> \<not> list_ex (fnm []) (include_patterns cfg))
        \<or> list_ex (fnm []) (exclude_patterns cfg))"
  by (cases "exclude_patterns cfg") (auto simp: should_monitor_unit_def)

text \<open>
  The first part at the unit of \<open>test_no_filters_accepts_all\<close>, the second at the filter
  of \<open>test_empty_unit_name\<close>.
\<close>

theorem C4_empty_lists_and_empty_name_witness:
  "include_patterns cfg0 = [] \<and> exclude_patterns cfg0 = []
   \<and> should_monitor_unit fnmatch cfg0 ''nginx.service'' = True
   \<and> include_patterns (cfg0\<lparr>include_patterns := [''*.service'']\<rparr>) \<noteq> []
   \<and> \<not> list_ex (fnmatch []) (include_patterns (cfg0\<lparr>include_patterns := [''*.service'']\<rparr>))
   \<and> should_monitor_unit fnmatch (cfg0\<lparr>include_patterns := [''*.service'']\<rparr>) [] = False"
  using C4_empty_lists_and_empty_name [of cfg0 fnmatch "''nginx.service''"]
    C4_empty_lists_and_empty_name [of "cfg0\<lparr>include_patterns := [''*.service'']\<rparr>" fnmatch]
  by (simp add: cfg0_def fnmatch_def)

text \<open>
  The claim as written fails: without any pattern the empty unit name is monitored.
\<close>

theorem C4_empty_name_counterexample:
  "should_monitor_unit fnmatch cfg0 [] = True"
  by (simp add: should_monitor_unit_def cfg0_def)

section \<open>Stats collector: theorems\<close>

subsection \<open>The mandatory block and the extended block\<close>

lemma get_base_failed:
  "base_failed w name \<Longrightarrow> \<exists>t e. get_base w name = (t, Inl e)"
  by (auto simp: base_failed_def get_base_def split: sum.splits option.splits)

lemma get_base_ok:
  "\<not> base_failed w name \<Longrightarrow>
   \<exists>t p a b c. get_base w name = (t, Inr (p, a, b, c)) \<and> bus_GetUnit w name = Inr p
     \<and> bus_get_object w p = None
     \<and> bus_Get_str w p iface_Unit ''ActiveState'' = Inr a
     \<and> bus_Get_str w p iface_Unit ''SubState'' = Inr b
     \<and> bus_Get_str w p iface_Unit ''LoadState'' = Inr c
     \<and> set t \<subseteq> {Bus_GetUnit name, Bus_get_object p, Bus_Get iface_Unit ''ActiveState'', Bus_Get iface_Unit ''SubState'', Bus_Get iface_Unit ''LoadState''}"
  by (auto simp: base_failed_def get_base_def split: sum.splits option.splits)

lemma get_base_no_service_call:
  "Bus_Get iface_Service prop \<notin> set (fst (get_base w name))"
  by (auto simp: get_base_def iface_Unit_def iface_Service_def split: sum.splits option.splits)

lemma get_base_no_resource_call:
  "prop \<in> {''MemoryCurrent'', ''CPUUsageNSec'', ''UnitFileState''} \<Longrightarrow> Bus_Get iface_Unit prop \<notin> set (fst (get_base w name))"
  by (auto simp: get_base_def  split: sum.splits option.splits)

lemma get_unit_stats_failed:
  "base_failed w name \<Longrightarrow> fst (get_unit_stats w name) = None"
  using get_base_failed [of w name] by (auto simp: get_unit_stats_def)

lemma get_unit_stats_eq:
  assumes "get_base w name = (t, Inr (p, a, b, c))"
  shows "get_unit_stats w name =
     (Some (snapshot w name a b c (fst (get_extended w p name))),
      t @ snd (get_extended w p name))"
  using assms by (simp add: get_unit_stats_def snapshot_def split: prod.splits)

lemma get_unit_stats_ok:
  assumes "\<not> base_failed w name" and "bus_GetUnit w name = Inr p"
  shows "\<exists>a b c t.
       bus_Get_str w p iface_Unit ''ActiveState'' = Inr a
     \<and> bus_Get_str w p iface_Unit ''SubState'' = Inr b
     \<and> bus_Get_str w p iface_Unit ''LoadState'' = Inr c
     \<and> (\<forall>pr. Bus_Get iface_Service pr \<notin> set t)
     \<and> Bus_Get iface_Unit ''MemoryCurrent'' \<notin> set t
     \<and> Bus_Get iface_Unit ''CPUUsageNSec'' \<notin> set t
     \<and> Bus_Get iface_Unit ''UnitFileState'' \<notin> set t
     \<and> get_unit_stats w name =
         (Some (snapshot w name a b c (fst (get_extended w p name))),
          t @ snd (get_extended w p name))"
proof -
  from get_base_ok [OF assms(1)] assms(2) obtain t a b c where
    b: "get_base w name = (t, Inr (p, a, b, c))"
     "bus_Get_str w p iface_Unit ''ActiveState'' = Inr a"
     "bus_Get_str w p iface_Unit ''SubState'' = Inr b"
     "bus_Get_str w p iface_Unit ''LoadState'' = Inr c" by auto
  have "\<forall>pr. Bus_Get iface_Service pr \<notin> set t"
    using get_base_no_service_call [of _ w name] b(1) by simp
  moreover have "Bus_Get iface_Unit ''MemoryCurrent'' \<notin> set t"
    "Bus_Get iface_Unit ''CPUUsageNSec'' \<notin> set t"
    "Bus_Get iface_Unit ''UnitFileState'' \<notin> set t"
    using get_base_no_resource_call [of _ w name] b(1) by simp_all
  ultimately show ?thesis
    using b get_unit_stats_eq [OF b(1)] by blast
qed

lemma snapshot_simps [simp]:
  "unit_name (snapshot w name a b c x) = name"
  "active_state (snapshot w name a b c x) = a"
  "sub_state (snapshot w name a b c x) = b"
  "load_state (snapshot w name a b c x) = c"
  "unit_file_state (snapshot w name a b c x) = x_unit_file_state x"
  "main_pid (snapshot w name a b c x) = x_main_pid x"
  "restart_count (snapshot w name a b c x) = x_restart_count x"
  "memory_current (snapshot w name a b c x) = x_memory_current x"
  "cpu_usage_nsec (snapshot w name a b c x) = x_cpu_usage_nsec x"
  "timestamp (snapshot w name a b c x) = time_time w"
  by (simp_all add: snapshot_def)

lemma base_ok_path: "\<not> base_failed w name \<Longrightarrow> \<exists>p. bus_GetUnit w name = Inr p"
  by (auto simp: base_failed_def split: sum.splits)

lemmas collector_defs = get_extended_def get_service_def get_resources_def extended_defaults_def

lemma get_extended_plain:
  assumes "\<not> service_failed w p name"
  shows "set (snd (get_extended w p name)) \<supseteq> {Bus_Get iface_Unit ''MemoryCurrent'', Bus_Get iface_Unit ''CPUUsageNSec'', Bus_Get iface_Unit ''UnitFileState''}"
    and "x_memory_current (fst (get_extended w p name)) = (case bus_Get_int w p iface_Unit ''MemoryCurrent'' of Inl e \<Rightarrow> 0 | Inr v \<Rightarrow> v)"
    and "x_cpu_usage_nsec (fst (get_extended w p name)) = (case bus_Get_int w p iface_Unit ''CPUUsageNSec'' of Inl e \<Rightarrow> 0 | Inr v \<Rightarrow> v)"
    and "x_unit_file_state (fst (get_extended w p name)) = (case bus_Get_str w p iface_Unit ''UnitFileState'' of Inl e \<Rightarrow> ''unknown'' | Inr v \<Rightarrow> v)"
  using assms
  by (auto simp: service_failed_def collector_defs Let_def split: sum.splits)

lemma get_extended_service_failed:
  assumes "service_failed w p name"
  shows "set (snd (get_extended w p name)) \<inter> {Bus_Get iface_Unit ''MemoryCurrent'', Bus_Get iface_Unit ''CPUUsageNSec'', Bus_Get iface_Unit ''UnitFileState''} = {}"
    and "x_memory_current (fst (get_extended w p name)) = 0"
    and "x_cpu_usage_nsec (fst (get_extended w p name)) = 0"
    and "x_unit_file_state (fst (get_extended w p name)) = ''unknown''"
    and "x_restart_count (fst (get_extended w p name)) = 0"
    and "x_main_pid (fst (get_extended w p name)) = (case bus_Get_int w p iface_Service ''MainPID'' of Inl e \<Rightarrow> 0 | Inr v \<Rightarrow> v)"
  using assms
  by (auto simp: service_failed_def collector_defs Let_def iface_Unit_def iface_Service_def split: sum.splits)

lemma get_extended_not_service:
  assumes "\<not> endswith name ''.service''"
  shows "x_main_pid (fst (get_extended w p name)) = 0"
    and "x_restart_count (fst (get_extended w p name)) = 0"
    and "Bus_Get iface_Service prop \<notin> set (snd (get_extended w p name))"
  using assms
  by (auto simp: collector_defs Let_def iface_Unit_def iface_Service_def split: sum.splits)





lemma get_unit_stats_service_call:
  assumes "Bus_Get iface_Service pr \<in> set (snd (get_unit_stats w name))"
  shows "endswith name ''.service''"
proof (rule ccontr)
  assume ns: "\<not> endswith name ''.service''"
  show False
  proof (cases "base_failed w name")
    case True
    from get_base_failed [OF True] obtain t e where "get_base w name = (t, Inl e)" by blast
    with assms get_base_no_service_call [of pr w name] show False
      by (auto simp: get_unit_stats_def)
  next
    case False
    from base_ok_path [OF False] obtain p where p: "bus_GetUnit w name = Inr p" by blast
    from get_unit_stats_ok [OF False p] assms get_extended_not_service(3) [OF ns, of pr w p]
    show False by auto
  qed
qed

subsection \<open>Runs on the concrete buses\<close>

lemmas world_simps =
  world_ok_def world_no_unit_def world_without_def iface_Unit_def iface_Service_def
  unit_path_of_def

lemmas collector_eval =
  get_unit_stats_def get_base_def get_extended_def get_service_def get_resources_def
  endswith_def extended_defaults_def world_simps

lemma run_nginx: "get_unit_stats world_ok ''nginx.service'' =
  (Some \<lparr>unit_name = ''nginx.service'', active_state = ''active'', sub_state = ''running'',
      load_state = ''loaded'', unit_file_state = ''enabled'', main_pid = 1234, restart_count = 2,
      memory_current = 52428800, cpu_usage_nsec = 1234567890, timestamp = Finite 3437491035651965 (- 21)\<rparr>,
   [Bus_GetUnit ''nginx.service'', Bus_get_object (unit_path_of ''nginx.service''),
    Bus_Get iface_Unit ''ActiveState'', Bus_Get iface_Unit ''SubState'', Bus_Get iface_Unit ''LoadState'',
    Bus_Get iface_Service ''MainPID'', Bus_Get iface_Service ''NRestarts'',
    Bus_Get iface_Unit ''MemoryCurrent'', Bus_Get iface_Unit ''CPUUsageNSec'', Bus_Get iface_Unit ''UnitFileState''])"
  by (simp add: collector_eval)

lemma run_mount: "get_unit_stats world_ok ''user.mount'' =
  (Some \<lparr>unit_name = ''user.mount'', active_state = ''active'', sub_state = ''running'',
      load_state = ''loaded'', unit_file_state = ''enabled'', main_pid = 0, restart_count = 0,
      memory_current = 52428800, cpu_usage_nsec = 1234567890, timestamp = Finite 3437491035651965 (- 21)\<rparr>,
   [Bus_GetUnit ''user.mount'', Bus_get_object (unit_path_of ''user.mount''),
    Bus_Get iface_Unit ''ActiveState'', Bus_Get iface_Unit ''SubState'', Bus_Get iface_Unit ''LoadState'',
    Bus_Get iface_Unit ''MemoryCurrent'', Bus_Get iface_Unit ''CPUUsageNSec'', Bus_Get iface_Unit ''UnitFileState''])"
  by (simp add: collector_eval)

lemma run_without_MainPID: "get_unit_stats (world_without ''MainPID'') ''nginx.service'' =
  (Some \<lparr>unit_name = ''nginx.service'', active_state = ''active'', sub_state = ''running'',
      load_state = ''loaded'', unit_file_state = ''unknown'', main_pid = 0, restart_count = 0,
      memory_current = 0, cpu_usage_nsec = 0, timestamp = Finite 3437491035651965 (- 21)\<rparr>,
   [Bus_GetUnit ''nginx.service'', Bus_get_object (unit_path_of ''nginx.service''),
    Bus_Get iface_Unit ''ActiveState'', Bus_Get iface_Unit ''SubState'', Bus_Get iface_Unit ''LoadState'',
    Bus_Get iface_Service ''MainPID'',
    Log DEBUG ''Could not get extended properties for nginx.service: no such property''])"
  by (simp add: collector_eval)

lemma run_without_NRestarts: "get_unit_stats (world_without ''NRestarts'') ''nginx.service'' =
  (Some \<lparr>unit_name = ''nginx.service'', active_state = ''active'', sub_state = ''running'',
      load_state = ''loaded'', unit_file_state = ''unknown'', main_pid = 1234, restart_count = 0,
      memory_current = 0, cpu_usage_nsec = 0, timestamp = Finite 3437491035651965 (- 21)\<rparr>,
   [Bus_GetUnit ''nginx.service'', Bus_get_object (unit_path_of ''nginx.service''),
    Bus_Get iface_Unit ''ActiveState'', Bus_Get iface_Unit ''SubState'', Bus_Get iface_Unit ''LoadState'',
    Bus_Get iface_Service ''MainPID'', Bus_Get iface_Service ''NRestarts'',
    Log DEBUG ''Could not get extended properties for nginx.service: no such property''])"
  by (simp add: collector_eval)

lemma run_without_MemoryCurrent: "get_unit_stats (world_without ''MemoryCurrent'') ''nginx.service'' =
  (Some \<lparr>unit_name = ''nginx.service'', active_state = ''active'', sub_state = ''running'',
      load_state = ''loaded'', unit_file_state = ''enabled'', main_pid = 1234, restart_count = 2,
      memory_current = 0, cpu_usage_nsec = 1234567890, timestamp = Finite 3437491035651965 (- 21)\<rparr>,
   [Bus_GetUnit ''nginx.service'', Bus_get_object (unit_path_of ''nginx.service''),
    Bus_Get iface_Unit ''ActiveState'', Bus_Get iface_Unit ''SubState'', Bus_Get iface_Unit ''LoadState'',
    Bus_Get iface_Service ''MainPID'', Bus_Get iface_Service ''NRestarts'',
    Bus_Get iface_Unit ''MemoryCurrent'', Bus_Get iface_Unit ''CPUUsageNSec'', Bus_Get iface_Unit ''UnitFileState''])"
  by (simp add: collector_eval)

lemma run_without_SubState: "get_unit_stats (world_without ''SubState'') ''nginx.service'' =
  (None,
   [Bus_GetUnit ''nginx.service'', Bus_get_object (unit_path_of ''nginx.service''),
    Bus_Get iface_Unit ''ActiveState'', Bus_Get iface_Unit ''SubState'',
    Log DEBUG ''Failed to get stats for nginx.service: no such property''])"
  by (simp add: collector_eval)

lemma run_no_unit: "get_unit_stats world_no_unit ''nonexistent.service'' =
  (None,
   [Bus_GetUnit ''nonexistent.service'',
    Log DEBUG ''Failed to get stats for nonexistent.service: Unit not found''])"
  by (simp add: collector_eval)

subsection \<open>All or nothing\<close>

text \<open>
  C2. \<open>get_unit_stats\<close> returns \<open>None\<close> whenever resolving the unit or reading
  \<open>ActiveState\<close>, \<open>SubState\<close> or \<open>LoadState\<close> fails, whatever else the bus answers.
  Otherwise it returns a snapshot that carries the unit name, the three values just as the
  bus gave them and the time of the clock; together with the record type, which has no
  optional field, this leaves no partly filled snapshot.
\<close>

theorem C2_snapshot_whole_or_none:
  "(base_failed w name \<longrightarrow> fst (get_unit_stats w name) = None)
   \<and> (\<not> base_failed w name \<longrightarrow>
        (\<exists>st p. fst (get_unit_stats w name) = Some st
           \<and> unit_name st = name
           \<and> bus_GetUnit w name = Inr p
           \<and> bus_Get_str w p iface_Unit ''ActiveState'' = Inr (active_state st)
           \<and> bus_Get_str w p iface_Unit ''SubState'' = Inr (sub_state st)
           \<and> bus_Get_str w p iface_Unit ''LoadState'' = Inr (load_state st)
           \<and> timestamp st = time_time w))"
proof (intro conjI impI)
  assume "base_failed w name"
  then show "fst (get_unit_stats w name) = None" by (rule get_unit_stats_failed)
next
  assume nb: "\<not> base_failed w name"
  from base_ok_path [OF nb] obtain p where p: "bus_GetUnit w name = Inr p" by blast
  from get_unit_stats_ok [OF nb p] p
  show "\<exists>st p. fst (get_unit_stats w name) = Some st
           \<and> unit_name st = name
           \<and> bus_GetUnit w name = Inr p
           \<and> bus_Get_str w p iface_Unit ''ActiveState'' = Inr (active_state st)
           \<and> bus_Get_str w p iface_Unit ''SubState'' = Inr (sub_state st)
           \<and> bus_Get_str w p iface_Unit ''LoadState'' = Inr (load_state st)
           \<and> timestamp st = time_time w"
    by auto
qed

text \<open>
  Both parts on concrete buses: \<open>GetUnit\<close> raises, \<open>SubState\<close> cannot be read, and
  everything answers.
\<close>

theorem C2_snapshot_whole_or_none_witness:
  "base_failed world_no_unit ''nonexistent.service''
   \<and> fst (get_unit_stats world_no_unit ''nonexistent.service'') = None
   \<and> base_failed (world_without ''SubState'') ''nginx.service''
   \<and> fst (get_unit_stats (world_without ''SubState'') ''nginx.service'') = None
   \<and> \<not> base_failed world_ok ''nginx.service''
   \<and> (\<exists>st p. fst (get_unit_stats world_ok ''nginx.service'') = Some st
          \<and> unit_name st = ''nginx.service''
          \<and> bus_GetUnit world_ok ''nginx.service'' = Inr p
          \<and> bus_Get_str world_ok p iface_Unit ''ActiveState'' = Inr (active_state st)
          \<and> bus_Get_str world_ok p iface_Unit ''SubState'' = Inr (sub_state st)
          \<and> bus_Get_str world_ok p iface_Unit ''LoadState'' = Inr (load_state st)
          \<and> timestamp st = time_time world_ok)"
proof -
  have f1: "base_failed world_no_unit ''nonexistent.service''"
    by (simp add: base_failed_def world_simps)
  have f2: "base_failed (world_without ''SubState'') ''nginx.service''"
    by (simp add: base_failed_def world_simps)
  have f3: "\<not> base_failed world_ok ''nginx.service''"
    by (simp add: base_failed_def world_simps)
  have c1: "fst (get_unit_stats world_no_unit ''nonexistent.service'') = None"
    using f1 by (rule C2_snapshot_whole_or_none [THEN conjunct1, THEN mp])
  have c2: "fst (get_unit_stats (world_without ''SubState'') ''nginx.service'') = None"
    using f2 by (rule C2_snapshot_whole_or_none [THEN conjunct1, THEN mp])
  note c3 = C2_snapshot_whole_or_none [of world_ok "''nginx.service''", THEN conjunct2,
      THEN mp, OF f3]
  show ?thesis
    using f1 f2 f3 c1 c2 c3 by simp
qed

subsection \<open>Service properties\<close>

text \<open>
  C7, as the code has it. A snapshot of a unit whose name does not end in \<open>.service\<close>
  has \<open>main_pid = 0\<close> and \<open>restart_count = 0\<close>, whatever the bus holds. \<open>MainPID\<close> and \<open>NRestarts\<close> are
  asked for only when the name ends in \<open>.service\<close>. On a service whose mandatory block
  succeeded, a failure to read \<open>MainPID\<close> still gives a snapshot, with both values 0; a
  failure to read \<open>NRestarts\<close> still gives a snapshot, with \<open>restart_count = 0\<close> and the
  \<open>main_pid\<close> that was read: line 220 has assigned it before line 221 raises.
\<close>

theorem C7_only_services_have_pid:
  "(\<not> endswith name ''.service'' \<and> fst (get_unit_stats w name) = Some st \<longrightarrow>
      main_pid st = 0 \<and> restart_count st = 0)
   \<and> (Bus_Get iface_Service ''MainPID'' \<in> set (snd (get_unit_stats w name))
        \<or> Bus_Get iface_Service ''NRestarts'' \<in> set (snd (get_unit_stats w name)) \<longrightarrow>
      endswith name ''.service'')
   \<and> (endswith name ''.service'' \<and> \<not> base_failed w name \<and> bus_GetUnit w name = Inr p
        \<and> bus_Get_int w p iface_Service ''MainPID'' = Inl e \<longrightarrow>
      (\<exists>st'. fst (get_unit_stats w name) = Some st'
         \<and> main_pid st' = 0 \<and> restart_count st' = 0))
   \<and> (endswith name ''.service'' \<and> \<not> base_failed w name \<and> bus_GetUnit w name = Inr p
        \<and> bus_Get_int w p iface_Service ''MainPID'' = Inr pid
        \<and> bus_Get_int w p iface_Service ''NRestarts'' = Inl e \<longrightarrow>
      (\<exists>st'. fst (get_unit_stats w name) = Some st'
         \<and> main_pid st' = pid \<and> restart_count st' = 0))"
  (is "?other \<and> ?only \<and> ?no_pid \<and> ?no_restarts")
proof -
  have other: ?other
  proof
    assume a: "\<not> endswith name ''.service'' \<and> fst (get_unit_stats w name) = Some st"
    then have nb: "\<not> base_failed w name"
      using get_unit_stats_failed [of w name] by auto
    from base_ok_path [OF nb] obtain p' where p': "bus_GetUnit w name = Inr p'" by blast
    from get_unit_stats_ok [OF nb p'] a get_extended_not_service(1,2) [of name w p']
    show "main_pid st = 0 \<and> restart_count st = 0"
      by auto
  qed
  have only: ?only
    using get_unit_stats_service_call [of _ w name] by blast
  have no_pid: ?no_pid
  proof
    assume a: "endswith name ''.service'' \<and> \<not> base_failed w name
        \<and> bus_GetUnit w name = Inr p \<and> bus_Get_int w p iface_Service ''MainPID'' = Inl e"
    then have sf: "service_failed w p name" and nb: "\<not> base_failed w name"
      and p: "bus_GetUnit w name = Inr p" by (simp_all add: service_failed_def)
    from a get_unit_stats_ok [OF nb p] get_extended_service_failed(5,6) [OF sf]
    show "\<exists>st'. fst (get_unit_stats w name) = Some st'
           \<and> main_pid st' = 0 \<and> restart_count st' = 0"
      by auto
  qed
  have no_restarts: ?no_restarts
  proof
    assume a: "endswith name ''.service'' \<and> \<not> base_failed w name
        \<and> bus_GetUnit w name = Inr p
        \<and> bus_Get_int w p iface_Service ''MainPID'' = Inr pid
        \<and> bus_Get_int w p iface_Service ''NRestarts'' = Inl e"
    then have sf: "service_failed w p name" and nb: "\<not> base_failed w name"
      and p: "bus_GetUnit w name = Inr p" by (simp_all add: service_failed_def)
    from a get_unit_stats_ok [OF nb p] get_extended_service_failed(5,6) [OF sf]
    show "\<exists>st'. fst (get_unit_stats w name) = Some st'
           \<and> main_pid st' = pid \<and> restart_count st' = 0"
      by auto
  qed
  show ?thesis
    by (rule conjI [OF other conjI [OF only conjI [OF no_pid no_restarts]]])
qed

text \<open>
  The mount of \<open>test_get_unit_stats_non_service\<close> on a bus that would answer 1234 and 2
  for it; the service on the full bus, without \<open>MainPID\<close> and without \<open>NRestarts\<close>.
\<close>

theorem C7_only_services_have_pid_witness:
  "\<not> endswith ''user.mount'' ''.service''
   \<and> bus_Get_int world_ok (unit_path_of ''user.mount'') iface_Service ''MainPID'' = Inr 1234
   \<and> bus_Get_int world_ok (unit_path_of ''user.mount'') iface_Service ''NRestarts'' = Inr 2
   \<and> fst (get_unit_stats world_ok ''user.mount'') = Some mount_stats
   \<and> main_pid mount_stats = 0 \<and> restart_count mount_stats = 0
   \<and> Bus_Get iface_Service ''MainPID'' \<in> set (snd (get_unit_stats world_ok ''nginx.service''))
   \<and> endswith ''nginx.service'' ''.service''
   \<and> \<not> base_failed (world_without ''MainPID'') ''nginx.service''
   \<and> bus_Get_int (world_without ''MainPID'') (unit_path_of ''nginx.service'') iface_Service
        ''MainPID'' = Inl (Exn ''no such property'')
   \<and> (\<exists>st'. fst (get_unit_stats (world_without ''MainPID'') ''nginx.service'') = Some st'
         \<and> main_pid st' = 0 \<and> restart_count st' = 0)
   \<and> \<not> base_failed (world_without ''NRestarts'') ''nginx.service''
   \<and> bus_Get_int (world_without ''NRestarts'') (unit_path_of ''nginx.service'') iface_Service
        ''NRestarts'' = Inl (Exn ''no such property'')
   \<and> (\<exists>st'. fst (get_unit_stats (world_without ''NRestarts'') ''nginx.service'') = Some st'
         \<and> main_pid st' = 1234 \<and> restart_count st' = 0)"
proof -
  have m: "\<not> endswith ''user.mount'' ''.service''"
    "bus_Get_int world_ok (unit_path_of ''user.mount'') iface_Service ''MainPID'' = Inr 1234"
    "bus_Get_int world_ok (unit_path_of ''user.mount'') iface_Service ''NRestarts'' = Inr 2"
    by (simp_all add: endswith_def world_simps)
  have ms: "fst (get_unit_stats world_ok ''user.mount'') = Some mount_stats"
    by (simp add: run_mount mount_stats_def)
  have n: "Bus_Get iface_Service ''MainPID'' \<in> set (snd (get_unit_stats world_ok ''nginx.service''))"
    by (simp add: run_nginx)
  have a: "\<not> base_failed (world_without ''MainPID'') ''nginx.service''"
    "bus_GetUnit (world_without ''MainPID'') ''nginx.service'' = Inr (unit_path_of ''nginx.service'')"
    "bus_Get_int (world_without ''MainPID'') (unit_path_of ''nginx.service'') iface_Service
        ''MainPID'' = Inl (Exn ''no such property'')"
    by (simp_all add: base_failed_def world_simps)
  have b: "\<not> base_failed (world_without ''NRestarts'') ''nginx.service''"
    "bus_GetUnit (world_without ''NRestarts'') ''nginx.service'' = Inr (unit_path_of ''nginx.service'')"
    "bus_Get_int (world_without ''NRestarts'') (unit_path_of ''nginx.service'') iface_Service
        ''MainPID'' = Inr 1234"
    "bus_Get_int (world_without ''NRestarts'') (unit_path_of ''nginx.service'') iface_Service
        ''NRestarts'' = Inl (Exn ''no such property'')"
    by (simp_all add: base_failed_def world_simps)
  have c1: "main_pid mount_stats = 0 \<and> restart_count mount_stats = 0"
    by (rule C7_only_services_have_pid [where name = "''user.mount''" and w = world_ok
          and st = mount_stats, THEN conjunct1, THEN mp])
       (simp add: m ms)
  have c2: "endswith ''nginx.service'' ''.service''"
    by (rule C7_only_services_have_pid [where name = "''nginx.service''" and w = world_ok,
          THEN conjunct2, THEN conjunct1, THEN mp])
       (simp add: n)
  have c3: "\<exists>st'. fst (get_unit_stats (world_without ''MainPID'') ''nginx.service'') = Some st'
         \<and> main_pid st' = 0 \<and> restart_count st' = 0"
    by (rule C7_only_services_have_pid [where name = "''nginx.service''"
          and w = "world_without ''MainPID''" and p = "unit_path_of ''nginx.service''"
          and e = "Exn ''no such property''",
          THEN conjunct2, THEN conjunct2, THEN conjunct1, THEN mp])
       (simp add: c2 a)
  have c4: "\<exists>st'. fst (get_unit_stats (world_without ''NRestarts'') ''nginx.service'') = Some st'
         \<and> main_pid st' = 1234 \<and> restart_count st' = 0"
    by (rule C7_only_services_have_pid [where name = "''nginx.service''"
          and w = "world_without ''NRestarts''" and p = "unit_path_of ''nginx.service''"
          and e = "Exn ''no such property''" and pid = 1234,
          THEN conjunct2, THEN conjunct2, THEN conjunct2, THEN mp])
       (simp add: c2 b)
  show ?thesis
    using m ms n a(1,3) b(1,4) c1 c2 c3 c4 by simp
qed

text \<open>
  The claim as written fails on a service whose \<open>MainPID\<close> is read and whose
  \<open>NRestarts\<close> cannot be read: the service fetch has failed, yet the snapshot has the
  \<open>main_pid\<close> 1234 and not 0.
\<close>

theorem C7_failed_NRestarts_keeps_MainPID_counterexample:
  "endswith ''nginx.service'' ''.service''
   \<and> bus_Get_int (world_without ''NRestarts'') (unit_path_of ''nginx.service'') iface_Service
        ''MainPID'' = Inr 1234
   \<and> isl (bus_Get_int (world_without ''NRestarts'') (unit_path_of ''nginx.service'')
         iface_Service ''NRestarts'')
   \<and> map_option main_pid (fst (get_unit_stats (world_without ''NRestarts'') ''nginx.service''))
       = Some 1234
   \<and> map_option restart_count
         (fst (get_unit_stats (world_without ''NRestarts'') ''nginx.service''))
       = Some 0"
proof -
  have "endswith ''nginx.service'' ''.service''"
    by (simp add: endswith_def)
  moreover have "bus_Get_int (world_without ''NRestarts'') (unit_path_of ''nginx.service'')
        iface_Service ''MainPID'' = Inr 1234"
    "isl (bus_Get_int (world_without ''NRestarts'') (unit_path_of ''nginx.service'')
         iface_Service ''NRestarts'')"
    by (simp_all add: world_simps)
  moreover have
    "map_option main_pid (fst (get_unit_stats (world_without ''NRestarts'') ''nginx.service''))
       = Some 1234"
    "map_option restart_count
         (fst (get_unit_stats (world_without ''NRestarts'') ''nginx.service''))
       = Some 0"
    by (simp_all add: run_without_NRestarts)
  ultimately show ?thesis by simp
qed

subsection \<open>Resource properties\<close>

text \<open>
  C5, as the code has it. Take a unit whose mandatory block succeeded. If the service
  block did not fail (the unit is no service, or \<open>MainPID\<close> and \<open>NRestarts\<close> were read),
  then \<open>MemoryCurrent\<close>, \<open>CPUUsageNSec\<close> and \<open>UnitFileState\<close> are each asked for, and
  each field of the snapshot depends on its own answer alone: the value read, or 0 or
  \<open>unknown\<close> when that read fails. If the service block failed, none of the three is
  asked for, the snapshot is still produced, and the three fields are 0, 0 and
  \<open>unknown\<close>.
\<close>

theorem C5_resource_reads:
  "(\<not> base_failed w name \<and> bus_GetUnit w name = Inr p \<and> \<not> service_failed w p name \<longrightarrow>
      Bus_Get iface_Unit ''MemoryCurrent'' \<in> set (snd (get_unit_stats w name))
      \<and> Bus_Get iface_Unit ''CPUUsageNSec'' \<in> set (snd (get_unit_stats w name))
      \<and> Bus_Get iface_Unit ''UnitFileState'' \<in> set (snd (get_unit_stats w name))
      \<and> (\<exists>st. fst (get_unit_stats w name) = Some st
            \<and> memory_current st =
                (case bus_Get_int w p iface_Unit ''MemoryCurrent'' of Inl e \<Rightarrow> 0 | Inr v \<Rightarrow> v)
            \<and> cpu_usage_nsec st =
                (case bus_Get_int w p iface_Unit ''CPUUsageNSec'' of Inl e \<Rightarrow> 0 | Inr v \<Rightarrow> v)
            \<and> unit_file_state st =
                (case bus_Get_str w p iface_Unit ''UnitFileState'' of
                   Inl e \<Rightarrow> ''unknown'' | Inr v \<Rightarrow> v)))
   \<and> (\<not> base_failed w name \<and> bus_GetUnit w name = Inr p \<and> service_failed w p name \<longrightarrow>
      Bus_Get iface_Unit ''MemoryCurrent'' \<notin> set (snd (get_unit_stats w name))
      \<and> Bus_Get iface_Unit ''CPUUsageNSec'' \<notin> set (snd (get_unit_stats w name))
      \<and> Bus_Get iface_Unit ''UnitFileState'' \<notin> set (snd (get_unit_stats w name))
      \<and> (\<exists>st. fst (get_unit_stats w name) = Some st
            \<and> memory_current st = 0 \<and> cpu_usage_nsec st = 0
            \<and> unit_file_state st = ''unknown''))"
proof (intro conjI impI)
  assume a: "\<not> base_failed w name \<and> bus_GetUnit w name = Inr p \<and> \<not> service_failed w p name"
  then have nf: "\<not> service_failed w p name" and nb: "\<not> base_failed w name"
    and p: "bus_GetUnit w name = Inr p" by simp_all
  from get_unit_stats_ok [OF nb p] get_extended_plain(1) [OF nf]
  show "Bus_Get iface_Unit ''MemoryCurrent'' \<in> set (snd (get_unit_stats w name))"
    "Bus_Get iface_Unit ''CPUUsageNSec'' \<in> set (snd (get_unit_stats w name))"
    "Bus_Get iface_Unit ''UnitFileState'' \<in> set (snd (get_unit_stats w name))"
    by auto
  from get_unit_stats_ok [OF nb p] get_extended_plain(2,3,4) [OF nf]
  show "\<exists>st. fst (get_unit_stats w name) = Some st
            \<and> memory_current st =
                (case bus_Get_int w p iface_Unit ''MemoryCurrent'' of Inl e \<Rightarrow> 0 | Inr v \<Rightarrow> v)
            \<and> cpu_usage_nsec st =
                (case bus_Get_int w p iface_Unit ''CPUUsageNSec'' of Inl e \<Rightarrow> 0 | Inr v \<Rightarrow> v)
            \<and> unit_file_state st =
                (case bus_Get_str w p iface_Unit ''UnitFileState'' of
                   Inl e \<Rightarrow> ''unknown'' | Inr v \<Rightarrow> v)"
    by auto
next
  assume a: "\<not> base_failed w name \<and> bus_GetUnit w name = Inr p \<and> service_failed w p name"
  then have sf: "service_failed w p name" and nb: "\<not> base_failed w name"
    and p: "bus_GetUnit w name = Inr p" by simp_all
  from get_unit_stats_ok [OF nb p] get_extended_service_failed(1) [OF sf]
  show "Bus_Get iface_Unit ''MemoryCurrent'' \<notin> set (snd (get_unit_stats w name))"
    "Bus_Get iface_Unit ''CPUUsageNSec'' \<notin> set (snd (get_unit_stats w name))"
    "Bus_Get iface_Unit ''UnitFileState'' \<notin> set (snd (get_unit_stats w name))"
    by auto
  from get_unit_stats_ok [OF nb p] get_extended_service_failed(2,3,4) [OF sf]
  show "\<exists>st. fst (get_unit_stats w name) = Some st
            \<and> memory_current st = 0 \<and> cpu_usage_nsec st = 0
            \<and> unit_file_state st = ''unknown''"
    by auto
qed

text \<open>
  The first part on a bus that cannot read \<open>MemoryCurrent\<close>: the other two are read all
  the same. The second part on a bus that cannot read \<open>NRestarts\<close>.
\<close>

theorem C5_resource_reads_witness:
  "\<not> base_failed (world_without ''MemoryCurrent'') ''nginx.service''
   \<and> \<not> service_failed (world_without ''MemoryCurrent'') (unit_path_of ''nginx.service'')
         ''nginx.service''
   \<and> isl (bus_Get_int (world_without ''MemoryCurrent'') (unit_path_of ''nginx.service'')
         iface_Unit ''MemoryCurrent'')
   \<and> Bus_Get iface_Unit ''CPUUsageNSec''
       \<in> set (snd (get_unit_stats (world_without ''MemoryCurrent'') ''nginx.service''))
   \<and> Bus_Get iface_Unit ''UnitFileState''
       \<in> set (snd (get_unit_stats (world_without ''MemoryCurrent'') ''nginx.service''))
   \<and> (\<exists>st. fst (get_unit_stats (world_without ''MemoryCurrent'') ''nginx.service'') = Some st
         \<and> memory_current st = 0 \<and> cpu_usage_nsec st = 1234567890
         \<and> unit_file_state st = ''enabled'')
   \<and> \<not> base_failed (world_without ''NRestarts'') ''nginx.service''
   \<and> service_failed (world_without ''NRestarts'') (unit_path_of ''nginx.service'')
         ''nginx.service''
   \<and> Bus_Get iface_Unit ''CPUUsageNSec''
       \<notin> set (snd (get_unit_stats (world_without ''NRestarts'') ''nginx.service''))
   \<and> (\<exists>st. fst (get_unit_stats (world_without ''NRestarts'') ''nginx.service'') = Some st
         \<and> memory_current st = 0 \<and> cpu_usage_nsec st = 0
         \<and> unit_file_state st = ''unknown'')"
proof -
  have a: "\<not> base_failed (world_without ''MemoryCurrent'') ''nginx.service''"
    "bus_GetUnit (world_without ''MemoryCurrent'') ''nginx.service''
       = Inr (unit_path_of ''nginx.service'')"
    "\<not> service_failed (world_without ''MemoryCurrent'') (unit_path_of ''nginx.service'')
         ''nginx.service''"
    by (simp_all add: base_failed_def service_failed_def world_simps)
  have v: "bus_Get_int (world_without ''MemoryCurrent'') (unit_path_of ''nginx.service'')
         iface_Unit ''MemoryCurrent'' = Inl (Exn ''no such property'')"
    "bus_Get_int (world_without ''MemoryCurrent'') (unit_path_of ''nginx.service'')
         iface_Unit ''CPUUsageNSec'' = Inr 1234567890"
    "bus_Get_str (world_without ''MemoryCurrent'') (unit_path_of ''nginx.service'')
         iface_Unit ''UnitFileState'' = Inr ''enabled''"
    by (simp_all add: world_simps)
  have b: "\<not> base_failed (world_without ''NRestarts'') ''nginx.service''"
    "bus_GetUnit (world_without ''NRestarts'') ''nginx.service''
       = Inr (unit_path_of ''nginx.service'')"
    "service_failed (world_without ''NRestarts'') (unit_path_of ''nginx.service'')
         ''nginx.service''"
    by (simp_all add: base_failed_def service_failed_def endswith_def world_simps)
  note c1 = C5_resource_reads [where name = "''nginx.service''"
      and w = "world_without ''MemoryCurrent''" and p = "unit_path_of ''nginx.service''",
      THEN conjunct1, THEN mp, OF conjI [OF a(1) conjI [OF a(2) a(3)]]]
  note c2 = C5_resource_reads [where name = "''nginx.service''"
      and w = "world_without ''NRestarts''" and p = "unit_path_of ''nginx.service''",
      THEN conjunct2, THEN mp, OF conjI [OF b(1) conjI [OF b(2) b(3)]]]
  show ?thesis
    using a(1,3) b(1,3) c1 c2 by (simp add: v)
qed

text \<open>
  The claim as written fails on a service whose \<open>MainPID\<close> cannot be read: the bus holds
  a \<open>MemoryCurrent\<close>, yet it is never asked for and the snapshot has 0.
\<close>

theorem C5_failed_MainPID_skips_MemoryCurrent_counterexample:
  "endswith ''nginx.service'' ''.service''
   \<and> isl (bus_Get_int (world_without ''MainPID'') (unit_path_of ''nginx.service'')
         iface_Service ''MainPID'')
   \<and> bus_Get_int (world_without ''MainPID'') (unit_path_of ''nginx.service'')
         iface_Unit ''MemoryCurrent'' = Inr 52428800
   \<and> Bus_Get iface_Unit ''MemoryCurrent''
       \<notin> set (snd (get_unit_stats (world_without ''MainPID'') ''nginx.service''))
   \<and> map_option memory_current (fst (get_unit_stats (world_without ''MainPID'') ''nginx.service''))
       = Some 0"
proof -
  have "endswith ''nginx.service'' ''.service''"
    by (simp add: endswith_def)
  moreover have "isl (bus_Get_int (world_without ''MainPID'') (unit_path_of ''nginx.service'')
         iface_Service ''MainPID'')"
    "bus_Get_int (world_without ''MainPID'') (unit_path_of ''nginx.service'')
         iface_Unit ''MemoryCurrent'' = Inr 52428800"
    by (simp_all add: world_simps)
  moreover have "Bus_Get iface_Unit ''MemoryCurrent''
       \<notin> set (snd (get_unit_stats (world_without ''MainPID'') ''nginx.service''))"
    "map_option memory_current (fst (get_unit_stats (world_without ''MainPID'') ''nginx.service''))
       = Some 0"
    by (simp_all add: run_without_MainPID iface_Unit_def iface_Service_def)
  ultimately show ?thesis by simp
qed

section \<open>Metric emitter: theorems\<close>

subsection \<open>The line\<close>

lemma format_line_ok:
  assumes "timestamp_ns (timestamp st) = Inr ns"
  shows \<open>format_line cfg st =
     Inr (measurement cfg @ '',unit="'' @ unit_name st
          @ ''",active_state="'' @ active_state st
          @ ''",sub_state="'' @ sub_state st
          @ ''",load_state="'' @ load_state st
          @ ''",unit_file_state="'' @ unit_file_state st
          @ ''",username="'' @ username cfg
          @ ''",uid="'' @ str_int (uid cfg)
          @ ''" main_pid='' @ str_int (main_pid st)
          @ ''i,restart_count='' @ str_int (restart_count st)
          @ ''i,memory_current='' @ str_int (memory_current st)
          @ ''i,cpu_usage_nsec='' @ str_int (cpu_usage_nsec st)
          @ ''i '' @ str_int ns @ [CHR 0x0A])\<close>
  using assms by (simp add: format_line_def)

lemma format_line_cases:
  "(\<exists>e. timestamp_ns (timestamp st) = Inl e \<and> format_line cfg st = Inl e)
   \<or> (\<exists>ns line. timestamp_ns (timestamp st) = Inr ns \<and> format_line cfg st = Inr line)"
  by (cases "timestamp_ns (timestamp st)") (simp_all add: format_line_def)

subsection \<open>The socket\<close>

lemma send_line_connected:
  assumes "socket_socket w = None" and "sock_connect w (telegraf_socket_path cfg) = None"
  shows "sent (fst (send_line cfg w st line)) = [line]"
  using assms by (simp add: send_line_def split: option.splits)

lemma sent_append [simp]: "sent (xs @ ys) = sent xs @ sent ys"
  by (induction xs rule: sent.induct) simp_all

lemma warnings_append [simp]: "warnings (xs @ ys) = warnings xs @ warnings ys"
  by (induction xs rule: warnings.induct) simp_all

lemma occurrences_simps [simp]:
  "occurrences e [] = 0"
  "occurrences e (x # xs) = (if x = e then Suc (occurrences e xs) else occurrences e xs)"
  "occurrences e (xs @ ys) = occurrences e xs + occurrences e ys"
  by (simp_all add: occurrences_def)

lemma send_to_telegraf_formatted:
  assumes "format_line cfg st = Inr line"
  shows "fst (send_to_telegraf cfg w st) =
     fst (send_line cfg w st line)
     @ (case snd (send_line cfg w st line) of
          None \<Rightarrow> []
        | Some e \<Rightarrow> [Log ERROR (''Error formatting/sending stats for '' @ unit_name st
                                   @ '': '' @ str_exn e)])"
  using assms
  by (cases "send_line cfg w st line") (simp add: send_to_telegraf_def split: option.splits)

lemma send_to_telegraf_returns: "snd (send_to_telegraf cfg w st) = None"
  by (simp add: send_to_telegraf_def split: sum.splits prod.splits option.splits)

lemma send_line_opened:
  assumes "socket_socket w = None"
  shows "occurrences Sock_close (fst (send_line cfg w st line)) = 1"
    and "occurrences Sock_socket (fst (send_line cfg w st line)) = 1"
    and "occurrences (Sock_connect (telegraf_socket_path cfg)) (fst (send_line cfg w st line)) = 1"
    and "length (sent (fst (send_line cfg w st line))) \<le> 1"
  using assms by (simp_all add: send_line_def split: option.splits)

lemma send_line_refused:
  assumes "socket_socket w = None" and "sock_connect w (telegraf_socket_path cfg) = Some e"
  shows "warnings (fst (send_line cfg w st line))
           = [''Failed to send to Telegraf socket: '' @ str_exn e]"
    and "sent (fst (send_line cfg w st line)) = []"
  using assms by (simp_all add: send_line_def)

lemma send_line_write_failed:
  assumes "socket_socket w = None" and "sock_connect w (telegraf_socket_path cfg) = None"
    and "sock_send w line = Some e"
  shows "warnings (fst (send_line cfg w st line))
           = [''Failed to send to Telegraf socket: '' @ str_exn e]"
    and "sent (fst (send_line cfg w st line)) = [line]"
  using assms by (simp_all add: send_line_def)

lemma send_line_not_opened:
  assumes "socket_socket w = Some e"
  shows "fst (send_line cfg w st line) = [Sock_socket]"
  using assms by (simp add: send_line_def)

subsection \<open>Numbers of the scenario\<close>

lemma str_int_samples:
  "str_int 0 = ''0''"
  "str_int 1000 = ''1000''"
  "str_int 1234 = ''1234''"
  "str_int 52428800 = ''52428800''"
  "str_int 1234567890 = ''1234567890''"
  by (simp_all add: str_int_def str_nat.simps digit_char_def)

lemma str_int_sample_ns: "str_int 1639123456788999936 = ''1639123456788999936''"
  by (simp add: str_int_def str_nat.simps digit_char_def)

lemma bit_length_product: "bit_length 3437491035651965000000000 = 82"
  by (simp add: bit_length.simps)

lemma round_half_even_product:
  "round_half_even 3437491035651965000000000 29 = 6402826003082031"
  by (simp add: round_half_even_def Let_def)

lemma bit_length_rounded: "bit_length 6402826003082031 = 53"
  by (simp add: bit_length.simps)

lemma round_double_product:
  "round_double 3437491035651965000000000 (- 21) = Finite 6402826003082031 8"
  unfolding round_double_def Let_def
  by (simp add: bit_length_product round_half_even_product bit_length_rounded)

lemma timestamp_sample:
  "timestamp_ns (Finite 3437491035651965 (- 21)) = Inr 1639123456788999936"
  by (simp add: timestamp_ns_def round_double_product)

subsection \<open>What is written\<close>

lemma send_to_telegraf_observed:
  assumes "format_line cfg st = Inr line"
  shows "sent (fst (send_to_telegraf cfg w st)) = sent (fst (send_line cfg w st line))"
    and "warnings (fst (send_to_telegraf cfg w st)) = warnings (fst (send_line cfg w st line))"
    and "occurrences Sock_close (fst (send_to_telegraf cfg w st))
           = occurrences Sock_close (fst (send_line cfg w st line))"
    and "occurrences Sock_socket (fst (send_to_telegraf cfg w st))
           = occurrences Sock_socket (fst (send_line cfg w st line))"
    and "occurrences (Sock_connect path) (fst (send_to_telegraf cfg w st))
           = occurrences (Sock_connect path) (fst (send_line cfg w st line))"
  by (simp_all add: send_to_telegraf_formatted [OF assms] split: option.splits)

lemma send_to_telegraf_unformatted:
  assumes "timestamp_ns (timestamp st) = Inl e"
  shows "fst (send_to_telegraf cfg w st) =
           [Log ERROR (''Error formatting/sending stats for '' @ unit_name st @ '': ''
                       @ str_exn e)]"
  using assms by (simp add: send_to_telegraf_def format_line_def)

text \<open>
  C1. When the timestamp converts to the integer \<open>ns\<close> and the socket is created and
  connected, \<open>send_to_telegraf\<close> writes exactly one string to the socket: the measurement,
  the seven tags in the order unit, active_state, sub_state, load_state, unit_file_state,
  username, uid, each value between double quotes, a space, the four fields in the order
  main_pid, restart_count, memory_current, cpu_usage_nsec, each an integer followed by
  \<open>i\<close>, a space, \<open>ns\<close> in decimal and a newline. \<open>ns\<close> is \<open>int(timestamp * 10 ^ 9)\<close> in
  double arithmetic. This holds for all strings, so also for those without a double quote
  or a comma. In particular the scenario of the spec gives its line, for every timestamp.
\<close>

theorem C1_line_on_the_wire:
  \<open>(timestamp_ns (timestamp st) = Inr ns \<and> socket_socket w = None
     \<and> sock_connect w (telegraf_socket_path cfg) = None \<longrightarrow>
     sent (fst (send_to_telegraf cfg w st)) =
       [measurement cfg @ '',unit="'' @ unit_name st
          @ ''",active_state="'' @ active_state st
          @ ''",sub_state="'' @ sub_state st
          @ ''",load_state="'' @ load_state st
          @ ''",unit_file_state="'' @ unit_file_state st
          @ ''",username="'' @ username cfg
          @ ''",uid="'' @ str_int (uid cfg)
          @ ''" main_pid='' @ str_int (main_pid st)
          @ ''i,restart_count='' @ str_int (restart_count st)
          @ ''i,memory_current='' @ str_int (memory_current st)
          @ ''i,cpu_usage_nsec='' @ str_int (cpu_usage_nsec st)
          @ ''i '' @ str_int ns @ [CHR 0x0A]])
   \<and> (timestamp_ns T = Inr ns \<and> socket_socket w = None
       \<and> sock_connect w (telegraf_socket_path cfg) = None
       \<and> measurement cfg = ''systemd_units'' \<and> username cfg = ''testuser'' \<and> uid cfg = 1000 \<longrightarrow>
       sent (fst (send_to_telegraf cfg w (sample_stats T))) =
         [''systemd_units,unit="nginx.service",active_state="active",sub_state="running",load_state="loaded",unit_file_state="enabled",username="testuser",uid="1000" main_pid=1234i,restart_count=0i,memory_current=52428800i,cpu_usage_nsec=1234567890i ''
          @ str_int ns @ [CHR 0x0A]])\<close>
  (is "(?reached \<longrightarrow> ?written = [?line]) \<and> (?reached' \<longrightarrow> ?written' = [?line'])")
proof (rule conjI; rule impI)
  assume a: ?reached
  then have "timestamp_ns (timestamp st) = Inr ns" by simp
  then have "format_line cfg st = Inr ?line" by (rule format_line_ok)
  then have "?written = sent (fst (send_line cfg w st ?line))"
    by (rule send_to_telegraf_observed(1))
  also have "\<dots> = [?line]"
    using a by (simp add: send_line_connected)
  finally show "?written = [?line]" .
next
  assume a: ?reached'
  then have "timestamp_ns (timestamp (sample_stats T)) = Inr ns"
    by (simp add: sample_stats_def)
  then have "format_line cfg (sample_stats T) = Inr ?line'"
    using a by (simp add: format_line_ok sample_stats_def str_int_samples)
  then have "?written' = sent (fst (send_line cfg w (sample_stats T) ?line'))"
    by (rule send_to_telegraf_observed(1))
  also have "\<dots> = [?line']"
    using a by (simp add: send_line_connected)
  finally show "?written' = [?line']" .
qed

text \<open>
  The scenario at 1639123456.789 seconds, the timestamp of \<open>sample_stats\<close> in the tests:
  the double product is 1639123456788999936, not 1639123456789000000.
\<close>

theorem C1_line_on_the_wire_witness:
  \<open>timestamp_ns (Finite 3437491035651965 (- 21)) = Inr 1639123456788999936
   \<and> socket_socket world_ok = None
   \<and> sock_connect world_ok (telegraf_socket_path cfg0) = None
   \<and> measurement cfg0 = ''systemd_units'' \<and> username cfg0 = ''testuser'' \<and> uid cfg0 = 1000
   \<and> sent (fst (send_to_telegraf cfg0 world_ok (sample_stats (Finite 3437491035651965 (- 21))))) =
       [''systemd_units,unit="nginx.service",active_state="active",sub_state="running",load_state="loaded",unit_file_state="enabled",username="testuser",uid="1000" main_pid=1234i,restart_count=0i,memory_current=52428800i,cpu_usage_nsec=1234567890i 1639123456788999936''
        @ [CHR 0x0A]]\<close>
proof -
  have h: "timestamp_ns (Finite 3437491035651965 (- 21)) = Inr 1639123456788999936
     \<and> socket_socket world_ok = None
     \<and> sock_connect world_ok (telegraf_socket_path cfg0) = None
     \<and> measurement cfg0 = ''systemd_units'' \<and> username cfg0 = ''testuser'' \<and> uid cfg0 = 1000"
    by (simp add: timestamp_sample world_ok_def cfg0_def)
  note C1_line_on_the_wire [where cfg = cfg0 and w = world_ok
      and T = "Finite 3437491035651965 (- 21)" and ns = 1639123456788999936,
      THEN conjunct2, THEN mp, OF h]
  then show ?thesis
    using h by (simp add: str_int_sample_ns)
qed

subsection \<open>Failures of the socket\<close>

text \<open>
  C8. \<open>send_to_telegraf\<close> never hands an exception to its caller. When the line was
  built and the socket created, the socket is connected once and closed exactly once,
  whatever connect, send and close answer, and at most one string is written. When connect
  raises, exactly one warning is logged and nothing is written; when send raises, exactly
  one warning is logged and the line was handed to the socket that once. Without a socket
  (the timestamp does not convert, or \<open>socket.socket\<close> raises) nothing is closed.
\<close>

theorem C8_emit_swallows_socket_failures:
  "snd (send_to_telegraf cfg w st) = None
   \<and> (timestamp_ns (timestamp st) = Inr ns \<and> socket_socket w = None \<longrightarrow>
        occurrences Sock_close (fst (send_to_telegraf cfg w st)) = 1
        \<and> occurrences (Sock_connect (telegraf_socket_path cfg)) (fst (send_to_telegraf cfg w st)) = 1
        \<and> length (sent (fst (send_to_telegraf cfg w st))) \<le> 1)
   \<and> (timestamp_ns (timestamp st) = Inr ns \<and> socket_socket w = None
        \<and> sock_connect w (telegraf_socket_path cfg) = Some e \<longrightarrow>
        warnings (fst (send_to_telegraf cfg w st))
          = [''Failed to send to Telegraf socket: '' @ str_exn e]
        \<and> sent (fst (send_to_telegraf cfg w st)) = [])
   \<and> (format_line cfg st = Inr line \<and> socket_socket w = None
        \<and> sock_connect w (telegraf_socket_path cfg) = None \<and> sock_send w line = Some e \<longrightarrow>
        warnings (fst (send_to_telegraf cfg w st))
          = [''Failed to send to Telegraf socket: '' @ str_exn e]
        \<and> sent (fst (send_to_telegraf cfg w st)) = [line])
   \<and> (isl (timestamp_ns (timestamp st)) \<or> socket_socket w \<noteq> None \<longrightarrow>
        occurrences Sock_close (fst (send_to_telegraf cfg w st)) = 0)"
  (is "?returns \<and> ?closed \<and> ?refused \<and> ?broken \<and> ?unopened")
proof -
  have returns: ?returns
    by (rule send_to_telegraf_returns)
  have closed: ?closed
  proof
    assume a: "timestamp_ns (timestamp st) = Inr ns \<and> socket_socket w = None"
    with format_line_cases [of st cfg] obtain line' where
      "format_line cfg st = Inr line'" by auto
    from send_to_telegraf_observed(1,3,5) [OF this] send_line_opened(1,3,4) [of w cfg st line'] a
    show "occurrences Sock_close (fst (send_to_telegraf cfg w st)) = 1
        \<and> occurrences (Sock_connect (telegraf_socket_path cfg)) (fst (send_to_telegraf cfg w st)) = 1
        \<and> length (sent (fst (send_to_telegraf cfg w st))) \<le> 1"
      by simp
  qed
  have refused: ?refused
  proof
    assume a: "timestamp_ns (timestamp st) = Inr ns \<and> socket_socket w = None
        \<and> sock_connect w (telegraf_socket_path cfg) = Some e"
    with format_line_cases [of st cfg] obtain line' where
      "format_line cfg st = Inr line'" by auto
    from send_to_telegraf_observed(1,2) [OF this] send_line_refused [of w cfg e st line'] a
    show "warnings (fst (send_to_telegraf cfg w st))
          = [''Failed to send to Telegraf socket: '' @ str_exn e]
        \<and> sent (fst (send_to_telegraf cfg w st)) = []"
      by simp
  qed
  have broken: ?broken
  proof
    assume a: "format_line cfg st = Inr line \<and> socket_socket w = None
        \<and> sock_connect w (telegraf_socket_path cfg) = None \<and> sock_send w line = Some e"
    then have "format_line cfg st = Inr line" by simp
    from send_to_telegraf_observed(1,2) [OF this] send_line_write_failed [of w cfg line e st] a
    show "warnings (fst (send_to_telegraf cfg w st))
          = [''Failed to send to Telegraf socket: '' @ str_exn e]
        \<and> sent (fst (send_to_telegraf cfg w st)) = [line]"
      by simp
  qed
  have unopened: ?unopened
  proof
    assume a: "isl (timestamp_ns (timestamp st)) \<or> socket_socket w \<noteq> None"
    show "occurrences Sock_close (fst (send_to_telegraf cfg w st)) = 0"
    proof (cases "timestamp_ns (timestamp st)")
      case (Inl e')
      then show ?thesis by (simp add: send_to_telegraf_unformatted)
    next
      case (Inr ns')
      with a obtain e' where e': "socket_socket w = Some e'" by auto
      from Inr format_line_cases [of st cfg] obtain line' where
        "format_line cfg st = Inr line'" by auto
      from send_to_telegraf_observed(3) [OF this] send_line_not_opened [OF e', of cfg st line']
      show ?thesis by simp
    qed
  qed
  show ?thesis
    by (rule conjI [OF returns conjI [OF closed conjI [OF refused conjI [OF broken unopened]]]])
qed

lemma format_sample:
  "format_line cfg0 (sample_stats (Finite 3437491035651965 (- 21))) = Inr sample_line"
proof -
  have "timestamp_ns (timestamp (sample_stats (Finite 3437491035651965 (- 21))))
          = Inr 1639123456788999936"
    by (simp add: sample_stats_def timestamp_sample)
  then show ?thesis
    by (simp add: format_line_ok sample_stats_def cfg0_def sample_line_def str_int_samples
          str_int_sample_ns)
qed

text \<open>
  The scenario snapshot against a collector that works, one that refuses the connection
  (\<open>test_socket_connection_error\<close>), one whose pipe breaks (\<open>test_socket_send_error\<close>),
  and a snapshot whose timestamp is not a number.
\<close>

theorem C8_emit_swallows_socket_failures_witness:
  "timestamp_ns (timestamp (sample_stats (Finite 3437491035651965 (- 21))))
     = Inr 1639123456788999936
   \<and> socket_socket world_ok = None
   \<and> occurrences Sock_close
        (fst (send_to_telegraf cfg0 world_ok (sample_stats (Finite 3437491035651965 (- 21))))) = 1
   \<and> socket_socket world_refused = None
   \<and> sock_connect world_refused (telegraf_socket_path cfg0) = Some (Exn ''Connection refused'')
   \<and> warnings
        (fst (send_to_telegraf cfg0 world_refused (sample_stats (Finite 3437491035651965 (- 21)))))
       = [''Failed to send to Telegraf socket: Connection refused'']
   \<and> occurrences Sock_close
        (fst (send_to_telegraf cfg0 world_refused (sample_stats (Finite 3437491035651965 (- 21)))))
       = 1
   \<and> format_line cfg0 (sample_stats (Finite 3437491035651965 (- 21))) = Inr sample_line
   \<and> socket_socket world_broken_pipe = None
   \<and> sock_connect world_broken_pipe (telegraf_socket_path cfg0) = None
   \<and> sock_send world_broken_pipe sample_line = Some (Exn ''Broken pipe'')
   \<and> warnings
        (fst (send_to_telegraf cfg0 world_broken_pipe
               (sample_stats (Finite 3437491035651965 (- 21)))))
       = [''Failed to send to Telegraf socket: Broken pipe'']
   \<and> occurrences Sock_close
        (fst (send_to_telegraf cfg0 world_broken_pipe
               (sample_stats (Finite 3437491035651965 (- 21)))))
       = 1
   \<and> isl (timestamp_ns (timestamp (sample_stats NaN)))
   \<and> occurrences Sock_close (fst (send_to_telegraf cfg0 world_ok (sample_stats NaN))) = 0
   \<and> snd (send_to_telegraf cfg0 world_refused (sample_stats (Finite 3437491035651965 (- 21))))
       = None"
proof -
  let ?st = "sample_stats (Finite 3437491035651965 (- 21))"
  have t: "timestamp_ns (timestamp ?st) = Inr 1639123456788999936"
    by (simp add: sample_stats_def timestamp_sample)
  have ok: "socket_socket world_ok = None"
    by (simp add: world_ok_def)
  have refused: "socket_socket world_refused = None"
    "sock_connect world_refused (telegraf_socket_path cfg0) = Some (Exn ''Connection refused'')"
    by (simp_all add: world_refused_def world_ok_def)
  have broken: "socket_socket world_broken_pipe = None"
    "sock_connect world_broken_pipe (telegraf_socket_path cfg0) = None"
    "sock_send world_broken_pipe sample_line = Some (Exn ''Broken pipe'')"
    by (simp_all add: world_broken_pipe_def world_ok_def)
  have nan: "isl (timestamp_ns (timestamp (sample_stats NaN)))"
    by (simp add: sample_stats_def timestamp_ns_def)
  note c1 = C8_emit_swallows_socket_failures [where cfg = cfg0 and w = world_ok and st = ?st
      and ns = 1639123456788999936, THEN conjunct2, THEN conjunct1, THEN mp,
      OF conjI [OF t ok]]
  note c2 = C8_emit_swallows_socket_failures [where cfg = cfg0 and w = world_refused
      and st = ?st and ns = 1639123456788999936 and e = "Exn ''Connection refused''",
      THEN conjunct2, THEN conjunct2, THEN conjunct1, THEN mp,
      OF conjI [OF t conjI [OF refused(1) refused(2)]]]
  note c2' = C8_emit_swallows_socket_failures [where cfg = cfg0 and w = world_refused
      and st = ?st and ns = 1639123456788999936, THEN conjunct2, THEN conjunct1, THEN mp,
      OF conjI [OF t refused(1)]]
  note c3 = C8_emit_swallows_socket_failures [where cfg = cfg0 and w = world_broken_pipe
      and st = ?st and line = sample_line and e = "Exn ''Broken pipe''",
      THEN conjunct2, THEN conjunct2, THEN conjunct2, THEN conjunct1, THEN mp,
      OF conjI [OF format_sample conjI [OF broken(1) conjI [OF broken(2) broken(3)]]]]
  note c3' = C8_emit_swallows_socket_failures [where cfg = cfg0 and w = world_broken_pipe
      and st = ?st and ns = 1639123456788999936, THEN conjunct2, THEN conjunct1, THEN mp,
      OF conjI [OF t broken(1)]]
  note c4 = C8_emit_swallows_socket_failures [where cfg = cfg0 and w = world_ok
      and st = "sample_stats NaN",
      THEN conjunct2, THEN conjunct2, THEN conjunct2, THEN conjunct2, THEN mp,
      OF disjI1 [OF nan]]
  note c5 = C8_emit_swallows_socket_failures [where cfg = cfg0 and w = world_refused
      and st = ?st, THEN conjunct1]
  show ?thesis
    using t ok refused broken nan format_sample c1 c2 c2' c3 c3' c4 c5 by simp
qed

section \<open>Reconciler: theorems\<close>

subsection \<open>What the collector and the emitter leave in the trace\<close>

lemma infos_append [simp]: "infos (xs @ ys) = infos xs @ infos ys"
  by (induction xs rule: infos.induct) simp_all

lemma get_base_quiet:
  "infos (fst (get_base w name)) = []"
  "Call_get_unit_stats n \<notin> set (fst (get_base w name))"
  "Call_send_to_telegraf st \<notin> set (fst (get_base w name))"
  by (auto simp: get_base_def split: sum.splits option.splits)

lemma get_extended_quiet:
  "infos (snd (get_extended w p name)) = []"
  "Call_get_unit_stats n \<notin> set (snd (get_extended w p name))"
  "Call_send_to_telegraf st \<notin> set (snd (get_extended w p name))"
  by (auto simp: collector_defs Let_def split: sum.splits)

lemma get_unit_stats_quiet_all:
  "infos (snd (get_unit_stats w name)) = []
   \<and> Call_get_unit_stats n \<notin> set (snd (get_unit_stats w name))
   \<and> Call_send_to_telegraf st \<notin> set (snd (get_unit_stats w name))"
proof (cases "get_base w name")
  case (Pair t r)
  show ?thesis
  proof (cases r)
    case (Inl e)
    with Pair get_base_quiet(1) [of w name] get_base_quiet(2) [of n w name]
      get_base_quiet(3) [of st w name]
    show ?thesis
      by (simp add: get_unit_stats_def)
  next
    case (Inr v)
    obtain p a b c where "v = (p, a, b, c)" by (cases v)
    with Pair Inr have "get_base w name = (t, Inr (p, a, b, c))" by simp
    from get_unit_stats_eq [OF this] this
      get_base_quiet(1) [of w name] get_base_quiet(2) [of n w name]
      get_base_quiet(3) [of st w name]
      get_extended_quiet(1) [of w p name] get_extended_quiet(2) [of n w p name]
      get_extended_quiet(3) [of st w p name]
    show ?thesis by simp
  qed
qed

lemma get_unit_stats_quiet:
  "infos (snd (get_unit_stats w name)) = []"
  "Call_get_unit_stats n \<notin> set (snd (get_unit_stats w name))"
  "Call_send_to_telegraf st \<notin> set (snd (get_unit_stats w name))"
  using get_unit_stats_quiet_all [of w name n st] by simp_all

lemma get_base_sends_nothing: "sent (fst (get_base w name)) = []"
  by (auto simp: get_base_def split: sum.splits option.splits)

lemma get_extended_sends_nothing: "sent (snd (get_extended w p name)) = []"
  by (auto simp: collector_defs Let_def split: sum.splits)

lemma get_unit_stats_sends_nothing: "sent (snd (get_unit_stats w name)) = []"
proof (cases "get_base w name")
  case (Pair t r)
  show ?thesis
  proof (cases r)
    case (Inl e)
    with Pair get_base_sends_nothing [of w name] show ?thesis
      by (simp add: get_unit_stats_def)
  next
    case (Inr v)
    obtain p a b c where "v = (p, a, b, c)" by (cases v)
    with Pair Inr have "get_base w name = (t, Inr (p, a, b, c))" by simp
    from get_unit_stats_eq [OF this] this get_base_sends_nothing [of w name]
      get_extended_sends_nothing [of w p name]
    show ?thesis by simp
  qed
qed

lemma get_unit_stats_name:
  assumes "fst (get_unit_stats w name) = Some st"
  shows "unit_name st = name"
  using assms
  by (auto simp: get_unit_stats_def split: sum.splits prod.splits)

lemma send_line_quiet:
  "infos (fst (send_line cfg w st line)) = []"
  "Call_get_unit_stats n \<notin> set (fst (send_line cfg w st line))"
  "Call_send_to_telegraf st' \<notin> set (fst (send_line cfg w st line))"
  by (auto simp: send_line_def split: option.splits)

lemma send_to_telegraf_quiet_all:
  "infos (fst (send_to_telegraf cfg w st)) = []
   \<and> Call_get_unit_stats n \<notin> set (fst (send_to_telegraf cfg w st))
   \<and> Call_send_to_telegraf st' \<notin> set (fst (send_to_telegraf cfg w st))"
proof (cases "timestamp_ns (timestamp st)")
  case (Inl e)
  then show ?thesis
    by (simp add: send_to_telegraf_unformatted)
next
  case (Inr ns)
  with format_line_cases [of st cfg] obtain line where
    "format_line cfg st = Inr line" by auto
  from send_to_telegraf_formatted [OF this, of w]
    send_line_quiet(1) [of cfg w st line] send_line_quiet(2) [of n cfg w st line]
    send_line_quiet(3) [of st' cfg w st line]
  show ?thesis
    by (auto split: option.splits)
qed

lemma send_to_telegraf_quiet:
  "infos (fst (send_to_telegraf cfg w st)) = []"
  "Call_get_unit_stats n \<notin> set (fst (send_to_telegraf cfg w st))"
  "Call_send_to_telegraf st' \<notin> set (fst (send_to_telegraf cfg w st))"
  using send_to_telegraf_quiet_all [of cfg w st n st'] by simp_all

subsection \<open>One collection\<close>

lemma collect_failed:
  assumes "fst (get_unit_stats w name) = None"
  shows "collect_and_send_unit_stats cfg w name s
           = (s, Call_get_unit_stats name # snd (get_unit_stats w name))"
  using assms by (cases "get_unit_stats w name") (simp add: collect_and_send_unit_stats_def)

lemma collect_succeeded:
  assumes "fst (get_unit_stats w name) = Some new"
  shows "collect_and_send_unit_stats cfg w name s =
     (s\<lparr>units := (units s)(name \<mapsto> new)\<rparr>,
      Call_get_unit_stats name # snd (get_unit_stats w name)
      @ [Units_set name new]
      @ (case units s name of
           None \<Rightarrow> []
         | Some old \<Rightarrow>
             if active_state old \<noteq> active_state new
             then [Log INFO (''Unit '' @ name @ '' state changed: '' @ active_state old
                             @ '' -> '' @ active_state new)]
             else [])
      @ [Call_send_to_telegraf new] @ fst (send_to_telegraf cfg w new))"
  using assms
  by (cases "get_unit_stats w name") (simp add: collect_and_send_unit_stats_def Let_def)

lemma collect_scope [simp]:
  "filtered_units (fst (collect_and_send_unit_stats cfg w name s)) = filtered_units s"
  by (cases "fst (get_unit_stats w name)") (simp_all add: collect_failed collect_succeeded)

lemma collect_dom:
  "dom (units (fst (collect_and_send_unit_stats cfg w name s))) \<subseteq> insert name (dom (units s))"
  by (cases "fst (get_unit_stats w name)") (auto simp: collect_failed collect_succeeded)

lemma collect_other [simp]:
  "k \<noteq> name \<Longrightarrow> units (fst (collect_and_send_unit_stats cfg w name s)) k = units s k"
  by (cases "fst (get_unit_stats w name)") (simp_all add: collect_failed collect_succeeded)

lemma collect_calls:
  "Call_get_unit_stats n \<in> set (snd (collect_and_send_unit_stats cfg w name s)) \<Longrightarrow> n = name"
  "Call_send_to_telegraf st \<in> set (snd (collect_and_send_unit_stats cfg w name s))
     \<Longrightarrow> unit_name st = name"
proof -
  assume "Call_get_unit_stats n \<in> set (snd (collect_and_send_unit_stats cfg w name s))"
  then show "n = name"
    using get_unit_stats_quiet(2) [of n w name] send_to_telegraf_quiet(2) [of n cfg w]
    by (cases "fst (get_unit_stats w name)")
       (auto simp: collect_failed collect_succeeded split: option.splits if_splits)
next
  assume "Call_send_to_telegraf st \<in> set (snd (collect_and_send_unit_stats cfg w name s))"
  then show "unit_name st = name"
    using get_unit_stats_quiet(3) [of st w name] send_to_telegraf_quiet(3) [of st cfg w]
      get_unit_stats_name [of w name]
    by (cases "fst (get_unit_stats w name)")
       (auto simp: collect_failed collect_succeeded split: option.splits if_splits)
qed

subsection \<open>The loop\<close>

lemma collect_all_Cons:
  "fst (collect_all cfg W (name # names) s) =
     fst (collect_all cfg W names (fst (collect_and_send_unit_stats cfg (W name) name s)))"
  "snd (collect_all cfg W (name # names) s) =
     snd (collect_and_send_unit_stats cfg (W name) name s)
     @ snd (collect_all cfg W names (fst (collect_and_send_unit_stats cfg (W name) name s)))"
  by (simp_all add: case_prod_unfold Let_def)

lemma collect_all_scope [simp]:
  "filtered_units (fst (collect_all cfg W names s)) = filtered_units s"
  by (induction names arbitrary: s) (simp_all add: collect_all_Cons del: collect_all.simps(2))

lemma collect_all_dom:
  "dom (units (fst (collect_all cfg W names s))) \<subseteq> set names \<union> dom (units s)"
proof (induction names arbitrary: s)
  case Nil
  show ?case by simp
next
  case (Cons name names)
  from Cons.IH [of "fst (collect_and_send_unit_stats cfg (W name) name s)"]
    collect_dom [of cfg "W name" name s]
  show ?case
    unfolding collect_all_Cons by auto
qed

lemma collect_all_calls:
  "Call_get_unit_stats n \<in> set (snd (collect_all cfg W names s)) \<longrightarrow> n \<in> set names"
  "Call_send_to_telegraf st \<in> set (snd (collect_all cfg W names s))
     \<longrightarrow> unit_name st \<in> set names"
proof (induction names arbitrary: s)
  case Nil
  { case 1 show ?case by simp }
  { case 2 show ?case by simp }
next
  case (Cons name names)
  { case 1
    from Cons.IH(1) [of "fst (collect_and_send_unit_stats cfg (W name) name s)"]
      collect_calls(1) [of n cfg "W name" name s]
    show ?case unfolding collect_all_Cons by auto }
  { case 2
    from Cons.IH(2) [of "fst (collect_and_send_unit_stats cfg (W name) name s)"]
      collect_calls(2) [of st cfg "W name" name s]
    show ?case unfolding collect_all_Cons by auto }
qed

subsection \<open>State transitions\<close>

text \<open>
  C6, as the code has it. When the collection succeeds for a unit whose stored snapshot
  has another \<open>active_state\<close>, \<open>collect_and_send_unit_stats\<close> logs exactly one
  informational line, \<open>Unit <name> state changed: <old> -> <new>\<close>, built from the
  snapshot that was stored before. The line is logged after the store entry has been
  overwritten with the new snapshot and before the snapshot is sent. When the unit has no
  stored snapshot, or the stored \<open>active_state\<close> is the new one, or the collection fails,
  no informational line is logged.
\<close>

theorem C6_transition_logged_after_store:
  "(fst (get_unit_stats w name) = Some new \<longrightarrow>
      units (fst (collect_and_send_unit_stats cfg w name s)) name = Some new
      \<and> (units s name = Some old \<and> active_state old \<noteq> active_state new \<longrightarrow>
           infos (snd (collect_and_send_unit_stats cfg w name s))
             = [''Unit '' @ name @ '' state changed: '' @ active_state old @ '' -> ''
                @ active_state new]
           \<and> snd (collect_and_send_unit_stats cfg w name s)
             = Call_get_unit_stats name # snd (get_unit_stats w name)
               @ [Units_set name new,
                  Log INFO (''Unit '' @ name @ '' state changed: '' @ active_state old
                            @ '' -> '' @ active_state new),
                  Call_send_to_telegraf new]
               @ fst (send_to_telegraf cfg w new))
      \<and> (units s name = None \<or> (units s name = Some old \<and> active_state old = active_state new)
           \<longrightarrow> infos (snd (collect_and_send_unit_stats cfg w name s)) = []))
   \<and> (fst (get_unit_stats w name) = None \<longrightarrow>
        infos (snd (collect_and_send_unit_stats cfg w name s)) = [])"
  (is "(?ok \<longrightarrow> ?stored \<and> (?differs \<longrightarrow> ?one \<and> ?order) \<and> (?same \<longrightarrow> ?none)) \<and> (?failed \<longrightarrow> ?none)")
proof (rule conjI; rule impI)
  assume ok: ?ok
  note c = collect_succeeded [OF ok, of cfg s]
  have stored: ?stored
    by (simp add: c)
  have differs: "?differs \<longrightarrow> ?one \<and> ?order"
    by (simp add: c get_unit_stats_quiet send_to_telegraf_quiet)
  have same: "?same \<longrightarrow> ?none"
    by (auto simp: c get_unit_stats_quiet send_to_telegraf_quiet)
  from stored differs same
  show "?stored \<and> (?differs \<longrightarrow> ?one \<and> ?order) \<and> (?same \<longrightarrow> ?none)"
    by (intro conjI)
next
  assume ?failed
  then show ?none
    by (simp add: collect_failed get_unit_stats_quiet)
qed

lemma collect_nginx:
  "fst (get_unit_stats world_ok ''nginx.service'') = Some nginx_stats"
  by (simp add: run_nginx nginx_stats_def)

text \<open>
  A unit last seen inactive and now active; a unit seen for the first time; a unit that
  cannot be resolved.
\<close>

theorem C6_transition_logged_after_store_witness:
  "fst (get_unit_stats world_ok ''nginx.service'') = Some nginx_stats
   \<and> units monitor_nginx ''nginx.service'' = Some nginx_inactive
   \<and> active_state nginx_inactive \<noteq> active_state nginx_stats
   \<and> infos (snd (collect_and_send_unit_stats cfg0 world_ok ''nginx.service'' monitor_nginx))
       = [''Unit nginx.service state changed: inactive -> active'']
   \<and> units monitor_empty ''nginx.service'' = None
   \<and> infos (snd (collect_and_send_unit_stats cfg0 world_ok ''nginx.service'' monitor_empty)) = []
   \<and> fst (get_unit_stats world_no_unit ''nginx.service'') = None
   \<and> infos (snd (collect_and_send_unit_stats cfg0 world_no_unit ''nginx.service'' monitor_nginx))
       = []"
proof -
  have old: "units monitor_nginx ''nginx.service'' = Some nginx_inactive"
    "active_state nginx_inactive \<noteq> active_state nginx_stats"
    by (simp_all add: monitor_nginx_def nginx_inactive_def nginx_stats_def)
  have first: "units monitor_empty ''nginx.service'' = None"
    by (simp add: monitor_empty_def)
  have gone: "fst (get_unit_stats world_no_unit ''nginx.service'') = None"
    by (simp add: collector_eval)
  note c1 = C6_transition_logged_after_store [where w = world_ok and name = "''nginx.service''"
      and new = nginx_stats and s = monitor_nginx and old = nginx_inactive and cfg = cfg0,
      THEN conjunct1, THEN mp, OF collect_nginx, THEN conjunct2, THEN conjunct1, THEN mp,
      OF conjI [OF old(1) old(2)], THEN conjunct1]
  note c2 = C6_transition_logged_after_store [where w = world_ok and name = "''nginx.service''"
      and new = nginx_stats and s = monitor_empty and cfg = cfg0,
      THEN conjunct1, THEN mp, OF collect_nginx, THEN conjunct2, THEN conjunct2, THEN mp,
      OF disjI1 [OF first]]
  note c3 = C6_transition_logged_after_store [where w = world_no_unit
      and name = "''nginx.service''" and s = monitor_nginx and cfg = cfg0,
      THEN conjunct2, THEN mp, OF gone]
  show ?thesis
    using collect_nginx old first gone c1 c2 c3
    by (simp add: nginx_inactive_def nginx_stats_def)
qed

text \<open>
  The claim as written fails in its order: in the run on the unit last seen inactive, the
  store entry is overwritten at position 11 of the trace and the line is logged at
  position 12, not before.
\<close>

theorem C6_log_follows_store_counterexample:
  "snd (collect_and_send_unit_stats cfg0 world_ok ''nginx.service'' monitor_nginx) ! 11
     = Units_set ''nginx.service'' nginx_stats
   \<and> snd (collect_and_send_unit_stats cfg0 world_ok ''nginx.service'' monitor_nginx) ! 12
     = Log INFO ''Unit nginx.service state changed: inactive -> active''
   \<and> Log INFO ''Unit nginx.service state changed: inactive -> active''
       \<notin> set (take 12
             (snd (collect_and_send_unit_stats cfg0 world_ok ''nginx.service'' monitor_nginx)))"
  by (simp add: collect_succeeded [OF collect_nginx] run_nginx monitor_nginx_def
        nginx_inactive_def nginx_stats_def)

subsection \<open>Lifecycle notifications\<close>

lemma send_to_telegraf_sent:
  assumes "d \<in> set (sent (fst (send_to_telegraf cfg w st)))"
  shows "format_line cfg st = Inr d"
proof (cases "timestamp_ns (timestamp st)")
  case (Inl e)
  with assms show ?thesis
    by (simp add: send_to_telegraf_unformatted)
next
  case (Inr ns)
  with format_line_cases [of st cfg] obtain line where
    l: "format_line cfg st = Inr line" by auto
  have "set (sent (fst (send_line cfg w st line))) \<subseteq> {line}"
    by (auto simp: send_line_def split: option.splits)
  with assms send_to_telegraf_observed(1) [OF l, of w] l show ?thesis
    by auto
qed

lemma collect_sent:
  assumes "d \<in> set (sent (snd (collect_and_send_unit_stats cfg w name s)))"
  shows "\<exists>st. unit_name st = name \<and> format_line cfg st = Inr d"
proof (cases "fst (get_unit_stats w name)")
  case None
  with assms show ?thesis
    by (simp add: collect_failed get_unit_stats_sends_nothing)
next
  case (Some new)
  with assms have "d \<in> set (sent (fst (send_to_telegraf cfg w new)))"
    by (simp add: collect_succeeded get_unit_stats_sends_nothing
          split: option.splits if_splits)
  then have "format_line cfg new = Inr d"
    by (rule send_to_telegraf_sent)
  with get_unit_stats_name [OF Some] show ?thesis
    by blast
qed

lemma collect_all_sent:
  "d \<in> set (sent (snd (collect_all cfg W names s))) \<longrightarrow>
     (\<exists>st. unit_name st \<in> set names \<and> format_line cfg st = Inr d)"
proof (induction names arbitrary: s)
  case Nil
  show ?case by simp
next
  case (Cons name names)
  from Cons.IH [of "fst (collect_and_send_unit_stats cfg (W name) name s)"]
    collect_sent [of d cfg "W name" name s]
  show ?case
    unfolding collect_all_Cons by auto
qed

lemma poll_units_calls:
  assumes "set (order (filtered_units s)) = filtered_units s"
  shows "Call_get_unit_stats n \<in> set (snd (poll_units cfg W order s)) \<longrightarrow> n \<in> filtered_units s"
    and "Call_send_to_telegraf st \<in> set (snd (poll_units cfg W order s))
           \<longrightarrow> unit_name st \<in> filtered_units s"
  using assms collect_all_calls(1) [of n cfg W "order (filtered_units s)" s]
    collect_all_calls(2) [of st cfg W "order (filtered_units s)" s]
  by (simp_all add: poll_units_def)

lemma poll_units_sent:
  assumes "set (order (filtered_units s)) = filtered_units s"
  shows "d \<in> set (sent (snd (poll_units cfg W order s))) \<longrightarrow>
     (\<exists>st. unit_name st \<in> filtered_units s \<and> format_line cfg st = Inr d)"
  using assms collect_all_sent [of d cfg W "order (filtered_units s)" s]
  by (simp add: poll_units_def)

lemma on_unit_removed_tracked:
  assumes "name \<in> filtered_units s"
  shows "on_unit_removed name s =
     (s\<lparr>filtered_units := filtered_units s - {name}, units := (units s)(name := None)\<rparr>,
      [Log INFO (''Unit removed: '' @ name), Filtered_discard name, Units_pop name])"
  using assms by (simp add: on_unit_removed_def)

text \<open>
  C9. A removed-notification for a unit in the scope set takes the unit out of the scope
  set and out of the state store, and the handler writes nothing to the socket and does not
  call \<open>send_to_telegraf\<close>. In a poll that follows, whatever order the runtime lists the
  scope set in, \<open>get_unit_stats\<close> is not called for the unit, every snapshot handed to
  \<open>send_to_telegraf\<close> bears another name, and every string written to the socket is the
  line of a snapshot of another name. A new-notification for a unit that fails the
  filter leaves the monitor as it was and has no effect at all.
\<close>

theorem C9_lifecycle_notifications:
  "(name \<in> filtered_units s \<longrightarrow>
      name \<notin> filtered_units (fst (on_unit_removed name s))
      \<and> units (fst (on_unit_removed name s)) name = None
      \<and> sent (snd (on_unit_removed name s)) = []
      \<and> Call_send_to_telegraf st \<notin> set (snd (on_unit_removed name s))
      \<and> (set (order (filtered_units (fst (on_unit_removed name s))))
            = filtered_units (fst (on_unit_removed name s)) \<longrightarrow>
          Call_get_unit_stats name
            \<notin> set (snd (poll_units cfg W order (fst (on_unit_removed name s))))
          \<and> (Call_send_to_telegraf st'
                \<in> set (snd (poll_units cfg W order (fst (on_unit_removed name s))))
              \<longrightarrow> unit_name st' \<noteq> name)
          \<and> (d \<in> set (sent (snd (poll_units cfg W order (fst (on_unit_removed name s)))))
              \<longrightarrow> (\<exists>other. unit_name other \<noteq> name \<and> format_line cfg other = Inr d))))
   \<and> (\<not> should_monitor_unit fnm cfg name \<longrightarrow> on_unit_new fnm cfg w name s = (s, []))"
  (is "(?tracked \<longrightarrow> ?removed) \<and> (?rejected \<longrightarrow> ?nothing)")
proof (rule conjI; rule impI)
  assume tracked: ?tracked
  let ?s = "fst (on_unit_removed name s)"
  note r = on_unit_removed_tracked [OF tracked]
  have gone: "name \<notin> filtered_units ?s"
    by (simp add: r)
  have a: "units ?s name = None" "sent (snd (on_unit_removed name s)) = []"
    "Call_send_to_telegraf st \<notin> set (snd (on_unit_removed name s))"
    by (simp_all add: r)
  have b: "set (order (filtered_units ?s)) = filtered_units ?s \<longrightarrow>
      Call_get_unit_stats name \<notin> set (snd (poll_units cfg W order ?s))
      \<and> (Call_send_to_telegraf st' \<in> set (snd (poll_units cfg W order ?s))
          \<longrightarrow> unit_name st' \<noteq> name)
      \<and> (d \<in> set (sent (snd (poll_units cfg W order ?s)))
          \<longrightarrow> (\<exists>other. unit_name other \<noteq> name \<and> format_line cfg other = Inr d))"
  proof
    assume e: "set (order (filtered_units ?s)) = filtered_units ?s"
    from e gone
      poll_units_calls(1) [where order = order and s = "?s" and n = name and cfg = cfg
        and W = W]
      poll_units_calls(2) [where order = order and s = "?s" and st = st' and cfg = cfg
        and W = W]
      poll_units_sent [where order = order and s = "?s" and d = d and cfg = cfg and W = W]
    show "Call_get_unit_stats name \<notin> set (snd (poll_units cfg W order ?s))
      \<and> (Call_send_to_telegraf st' \<in> set (snd (poll_units cfg W order ?s))
          \<longrightarrow> unit_name st' \<noteq> name)
      \<and> (d \<in> set (sent (snd (poll_units cfg W order ?s)))
          \<longrightarrow> (\<exists>other. unit_name other \<noteq> name \<and> format_line cfg other = Inr d))"
      by auto
  qed
  from gone a b show ?removed
    by (intro conjI)
next
  assume ?rejected
  then show ?nothing
    by (simp add: on_unit_new_def)
qed

text \<open>
  The service is removed from a monitor that tracks it and a mount; the next poll visits the
  mount. A mount is announced to a monitor that excludes mounts.
\<close>

theorem C9_lifecycle_notifications_witness:
  "''nginx.service'' \<in> filtered_units monitor_two
   \<and> units monitor_two ''nginx.service'' = Some nginx_inactive
   \<and> fst (on_unit_removed ''nginx.service'' monitor_two)
       = \<lparr>units = Map.empty, filtered_units = {''user.mount''}\<rparr>
   \<and> set ((\<lambda>S. [''user.mount'']) (filtered_units (fst (on_unit_removed ''nginx.service'' monitor_two))))
       = filtered_units (fst (on_unit_removed ''nginx.service'' monitor_two))
   \<and> Call_get_unit_stats ''nginx.service''
       \<notin> set (snd (poll_units cfg0 (\<lambda>u. world_ok) (\<lambda>S. [''user.mount''])
                      (fst (on_unit_removed ''nginx.service'' monitor_two))))
   \<and> Call_get_unit_stats ''user.mount''
       \<in> set (snd (poll_units cfg0 (\<lambda>u. world_ok) (\<lambda>S. [''user.mount''])
                      (fst (on_unit_removed ''nginx.service'' monitor_two))))
   \<and> \<not> should_monitor_unit fnmatch cfg_no_mounts ''user.mount''
   \<and> on_unit_new fnmatch cfg_no_mounts world_ok ''user.mount'' monitor_empty = (monitor_empty, [])"
proof -
  have t: "''nginx.service'' \<in> filtered_units monitor_two"
    "units monitor_two ''nginx.service'' = Some nginx_inactive"
    by (simp_all add: monitor_two_def)
  have r: "fst (on_unit_removed ''nginx.service'' monitor_two)
       = \<lparr>units = Map.empty, filtered_units = {''user.mount''}\<rparr>"
    by (simp add: on_unit_removed_def monitor_two_def)
  have e: "set ((\<lambda>S. [''user.mount'']) (filtered_units (fst (on_unit_removed ''nginx.service'' monitor_two))))
       = filtered_units (fst (on_unit_removed ''nginx.service'' monitor_two))"
    by (simp add: r)
  have f: "\<not> should_monitor_unit fnmatch cfg_no_mounts ''user.mount''"
    by (simp add: should_monitor_unit_def cfg_no_mounts_def fnmatch_def)
  note c1 = C9_lifecycle_notifications [where name = "''nginx.service''" and s = monitor_two
      and order = "\<lambda>S. [''user.mount'']" and cfg = cfg0 and W = "\<lambda>u. world_ok",
      THEN conjunct1, THEN mp, OF t(1)]
  note c2 = c1 [THEN conjunct2, THEN conjunct2, THEN conjunct2, THEN conjunct2, THEN mp, OF e,
      THEN conjunct1]
  note c3 = C9_lifecycle_notifications [where name = "''user.mount''" and fnm = fnmatch
      and cfg = cfg_no_mounts and w = world_ok and s = monitor_empty,
      THEN conjunct2, THEN mp, OF f]
  have visited: "Call_get_unit_stats ''user.mount''
       \<in> set (snd (poll_units cfg0 (\<lambda>u. world_ok) (\<lambda>S. [''user.mount''])
                      (fst (on_unit_removed ''nginx.service'' monitor_two))))"
    by (simp add: poll_units_def collect_all_Cons collect_succeeded [of world_ok "''user.mount''" mount_stats]
          run_mount mount_stats_def del: collect_all.simps(2))
  from t r e c2 visited f c3 show ?thesis
    by (intro conjI)
qed

subsection \<open>The store stays within the scope\<close>

lemma collect_in_scope:
  assumes "store_in_scope s" and "name \<in> filtered_units s"
  shows "store_in_scope (fst (collect_and_send_unit_stats cfg w name s))"
  using assms collect_dom [of cfg w name s]
  unfolding store_in_scope_def collect_scope by blast

lemma collect_all_in_scope:
  assumes "store_in_scope s" and "set names \<subseteq> filtered_units s"
  shows "store_in_scope (fst (collect_all cfg W names s))"
  using assms collect_all_dom [of cfg W names s]
  unfolding store_in_scope_def collect_all_scope by blast

lemma get_all_units_state:
  "units (fst (snd (get_all_units fnm cfg w s))) = units s"
  "filtered_units s \<subseteq> filtered_units (fst (snd (get_all_units fnm cfg w s)))"
  "set (fst (get_all_units fnm cfg w s)) \<subseteq> filtered_units (fst (snd (get_all_units fnm cfg w s)))"
  by (auto simp: get_all_units_def Let_def split: sum.splits)

lemma get_all_units_in_scope:
  assumes "store_in_scope s"
  shows "store_in_scope (fst (snd (get_all_units fnm cfg w s)))"
  using assms get_all_units_state(1) [where fnm = fnm and cfg = cfg and w = w and s = s]
    get_all_units_state(2) [where fnm = fnm and cfg = cfg and w = w and s = s]
  unfolding store_in_scope_def by auto

lemma initial_pass_state:
  "fst (initial_pass fnm cfg w W s) =
     fst (collect_all cfg W (fst (get_all_units fnm cfg w s)) (fst (snd (get_all_units fnm cfg w s))))"
  by (simp add: initial_pass_def case_prod_unfold Let_def)

lemma initial_pass_in_scope:
  assumes "store_in_scope s"
  shows "store_in_scope (fst (initial_pass fnm cfg w W s))"
  unfolding initial_pass_state
  by (rule collect_all_in_scope [OF get_all_units_in_scope [OF assms] get_all_units_state(3)])

lemma on_unit_new_in_scope:
  assumes "store_in_scope s"
  shows "store_in_scope (fst (on_unit_new fnm cfg w name s))"
proof (cases "should_monitor_unit fnm cfg name")
  case False
  with assms show ?thesis by (simp add: on_unit_new_def)
next
  case True
  let ?s1 = "s\<lparr>filtered_units := insert name (filtered_units s)\<rparr>"
  from assms have "store_in_scope ?s1"
    unfolding store_in_scope_def by auto
  moreover have "name \<in> filtered_units ?s1" by simp
  ultimately have "store_in_scope (fst (collect_and_send_unit_stats cfg w name ?s1))"
    by (rule collect_in_scope)
  with True show ?thesis
    by (simp add: on_unit_new_def case_prod_unfold Let_def)
qed

lemma on_unit_removed_in_scope:
  assumes "store_in_scope s"
  shows "store_in_scope (fst (on_unit_removed name s))"
  using assms unfolding store_in_scope_def on_unit_removed_def by auto

lemma poll_units_in_scope:
  assumes "store_in_scope s" and "set (order (filtered_units s)) = filtered_units s"
  shows "store_in_scope (fst (poll_units cfg W order s))"
  unfolding poll_units_def
  using assms by (intro collect_all_in_scope) simp_all

text \<open>
  C10, as the code has it. The invariant that every key of the state store is in the scope
  set is kept by \<open>get_all_units\<close>, by the initial pass of \<open>run\<close>, by \<open>on_unit_new\<close>, by
  \<open>on_unit_removed\<close>, by \<open>poll_units\<close> for every enumeration order of the scope set, and
  by \<open>collect_and_send_unit_stats\<close> when it is called for a unit of the scope set, as
  all its callers do. A stored value is a whole snapshot by the type of the store. When
  the collection fails, \<open>collect_and_send_unit_stats\<close> returns the monitor it was given,
  writes nothing to the socket and does not call \<open>send_to_telegraf\<close>.
\<close>

theorem C10_store_within_scope:
  "(store_in_scope s \<longrightarrow>
      store_in_scope (fst (snd (get_all_units fnm cfg w s)))
      \<and> store_in_scope (fst (initial_pass fnm cfg w W s))
      \<and> store_in_scope (fst (on_unit_new fnm cfg w name s))
      \<and> store_in_scope (fst (on_unit_removed name s))
      \<and> (set (order (filtered_units s)) = filtered_units s \<longrightarrow>
           store_in_scope (fst (poll_units cfg W order s)))
      \<and> (name \<in> filtered_units s \<longrightarrow>
           store_in_scope (fst (collect_and_send_unit_stats cfg w name s))))
   \<and> (fst (get_unit_stats w name) = None \<longrightarrow>
        fst (collect_and_send_unit_stats cfg w name s) = s
        \<and> sent (snd (collect_and_send_unit_stats cfg w name s)) = []
        \<and> Call_send_to_telegraf st \<notin> set (snd (collect_and_send_unit_stats cfg w name s)))"
  (is "(?inv \<longrightarrow> ?kept) \<and> (?failed \<longrightarrow> ?untouched)")
proof (rule conjI; rule impI)
  assume inv: ?inv
  have poll: "set (order (filtered_units s)) = filtered_units s \<longrightarrow>
           store_in_scope (fst (poll_units cfg W order s))"
    using inv by (simp add: poll_units_in_scope)
  have collect: "name \<in> filtered_units s \<longrightarrow>
           store_in_scope (fst (collect_and_send_unit_stats cfg w name s))"
    using inv by (simp add: collect_in_scope)
  from get_all_units_in_scope [OF inv] initial_pass_in_scope [OF inv]
    on_unit_new_in_scope [OF inv] on_unit_removed_in_scope [OF inv] poll collect
  show ?kept
    by (intro conjI)
next
  assume failed: ?failed
  show ?untouched
    using get_unit_stats_quiet(3) [of st w name]
    by (simp add: collect_failed [OF failed] get_unit_stats_sends_nothing)
qed

text \<open>
  A monitor that tracks the service and has a snapshot of it, with its scope listed in
  full; and a collection that fails because the unit cannot be resolved.
\<close>

theorem C10_store_within_scope_witness:
  "store_in_scope monitor_nginx
   \<and> set ((\<lambda>S. [''nginx.service'']) (filtered_units monitor_nginx)) = filtered_units monitor_nginx
   \<and> ''nginx.service'' \<in> filtered_units monitor_nginx
   \<and> store_in_scope (fst (poll_units cfg0 (\<lambda>u. world_ok) (\<lambda>S. [''nginx.service'']) monitor_nginx))
   \<and> store_in_scope (fst (collect_and_send_unit_stats cfg0 world_ok ''nginx.service'' monitor_nginx))
   \<and> store_in_scope (fst (on_unit_new fnmatch cfg0 world_ok ''user.mount'' monitor_nginx))
   \<and> store_in_scope (fst (on_unit_removed ''nginx.service'' monitor_nginx))
   \<and> fst (get_unit_stats world_no_unit ''nginx.service'') = None
   \<and> fst (collect_and_send_unit_stats cfg0 world_no_unit ''nginx.service'' monitor_nginx)
       = monitor_nginx
   \<and> sent (snd (collect_and_send_unit_stats cfg0 world_no_unit ''nginx.service'' monitor_nginx))
       = []"
proof -
  have inv: "store_in_scope monitor_nginx"
    by (simp add: store_in_scope_def monitor_nginx_def)
  have e: "set ((\<lambda>S. [''nginx.service'']) (filtered_units monitor_nginx))
      = filtered_units monitor_nginx"
    by (simp add: monitor_nginx_def)
  have m: "''nginx.service'' \<in> filtered_units monitor_nginx"
    by (simp add: monitor_nginx_def)
  have gone: "fst (get_unit_stats world_no_unit ''nginx.service'') = None"
    by (simp add: collector_eval)
  note k1 = C10_store_within_scope [where s = monitor_nginx and cfg = cfg0
      and W = "\<lambda>u. world_ok" and order = "\<lambda>S. [''nginx.service'']",
      THEN conjunct1, THEN mp, OF inv,
      THEN conjunct2, THEN conjunct2, THEN conjunct2, THEN conjunct2, THEN conjunct1, THEN mp,
      OF e]
  note k2 = C10_store_within_scope [where s = monitor_nginx and cfg = cfg0 and w = world_ok
      and name = "''nginx.service''",
      THEN conjunct1, THEN mp, OF inv,
      THEN conjunct2, THEN conjunct2, THEN conjunct2, THEN conjunct2, THEN conjunct2, THEN mp,
      OF m]
  note k3 = C10_store_within_scope [where s = monitor_nginx and cfg = cfg0 and w = world_ok
      and name = "''user.mount''" and fnm = fnmatch,
      THEN conjunct1, THEN mp, OF inv, THEN conjunct2, THEN conjunct2, THEN conjunct1]
  note k4 = C10_store_within_scope [where s = monitor_nginx and name = "''nginx.service''",
      THEN conjunct1, THEN mp, OF inv,
      THEN conjunct2, THEN conjunct2, THEN conjunct2, THEN conjunct1]
  note f = C10_store_within_scope [where s = monitor_nginx and cfg = cfg0
      and w = world_no_unit and name = "''nginx.service''", THEN conjunct2, THEN mp, OF gone]
  from inv e m k1 k2 k3 k4 gone f [THEN conjunct1] f [THEN conjunct2, THEN conjunct1]
  show ?thesis
    by (intro conjI)
qed

text \<open>
  The claim as written fails for \<open>collect_and_send_unit_stats\<close> taken alone: called for a
  unit outside the scope set, it stores the snapshot all the same.
\<close>

theorem C10_collect_outside_scope_counterexample:
  "store_in_scope monitor_empty
   \<and> ''nginx.service'' \<notin> filtered_units monitor_empty
   \<and> \<not> store_in_scope
         (fst (collect_and_send_unit_stats cfg0 world_ok ''nginx.service'' monitor_empty))"
  by (simp add: store_in_scope_def monitor_empty_def collect_succeeded [OF collect_nginx])

end
